theory Spec2Isabelle
  imports Complex_Main
begin

section \<open>Exceptions\<close>

text \<open>
  The exceptions that the Python code, the SQLAlchemy layer and SQLite can raise on the
  paths modelled here.  \<open>CompileError\<close> is SQLAlchemy's error for an insert statement that
  names a column the table does not have (``Unconsumed column names''); \<open>IntegrityError\<close>
  is a violated uniqueness constraint; \<open>OperationalError\<close> is a statement SQLite rejects.
  \<open>Unmodelled\<close> marks an expression outside the fragment of Python expressions that the
  interpreter of section ``The evaluator'' covers.
\<close>

datatype error =
    CompileError
  | IntegrityError
  | OperationalError
  | IndexError
  | KeyError
  | ValueError
  | TypeError
  | AttributeError
  | ZeroDivisionError
  | Unmodelled

section \<open>Python strings\<close>

text \<open>
  Characters are code points below 256.  \<open>str.strip()\<close> removes the characters for which
  \<open>str.isspace\<close> holds from both ends.
\<close>

definition is_space :: "char \<Rightarrow> bool" where
  "is_space c = (c \<in> set [CHR 0x09, CHR 0x0A, CHR 0x0B, CHR 0x0C, CHR 0x0D, CHR 0x1C, CHR 0x1D,
     CHR 0x1E, CHR 0x1F, CHR 0x20, CHR 0x85, CHR 0xA0])"

definition strip :: "string \<Rightarrow> string" where
  "strip s = rev (dropWhile is_space (rev (dropWhile is_space s)))"

definition startswith :: "string \<Rightarrow> string \<Rightarrow> bool" where
  "startswith p s = (take (length p) s = p)"

text \<open>
  \<open>s.split(sep)\<close> for a separator that is not empty (the code splits on \<open>', '\<close> and \<open>','\<close>):
  the pieces between the occurrences of \<open>sep\<close>, found from the left without overlap.
\<close>

function split_from :: "string \<Rightarrow> string \<Rightarrow> string \<Rightarrow> string list" where
  "split_from sep acc s =
     (if s = [] then [rev acc]
      else if sep \<noteq> [] \<and> startswith sep s
      then rev acc # split_from sep [] (drop (length sep) s)
      else split_from sep (hd s # acc) (tl s))"
  by pat_completeness auto
termination
  by (relation "measure (\<lambda>(sep, acc, s). length s)") auto

declare split_from.simps [simp del]

definition str_split :: "string \<Rightarrow> string \<Rightarrow> string list" where
  "str_split s sep = split_from sep [] s"

text \<open>\<open>sub in s\<close> on strings.\<close>

fun contains :: "string \<Rightarrow> string \<Rightarrow> bool" where
  "contains sub [] = (sub = [])"
| "contains sub (c # cs) = (startswith sub (c # cs) \<or> contains sub cs)"

text \<open>
  \<open>re.sub(pat, rep, s)\<close> for a pattern and a replacement without special characters, as
  \<open>r'20,20'\<close> and \<open>r'2020'\<close> are: every match found from the left without overlap is
  replaced.
\<close>

function re_sub :: "string \<Rightarrow> string \<Rightarrow> string \<Rightarrow> string" where
  "re_sub pat rep s =
     (if s = [] then []
      else if pat \<noteq> [] \<and> startswith pat s
      then rep @ re_sub pat rep (drop (length pat) s)
      else hd s # re_sub pat rep (tl s))"
  by pat_completeness auto
termination
  by (relation "measure (\<lambda>(pat, rep, s). length s)") auto

declare re_sub.simps [simp del]

text \<open>
  \<open>int(s)\<close> on a string: surrounding whitespace, an optional sign, decimal digits, single
  underscores between digits.  \<open>None\<close> stands for the \<open>ValueError\<close>.
\<close>

definition is_digit :: "char \<Rightarrow> bool" where
  "is_digit c = (c \<in> set ''0123456789'')"

definition digit_value :: "char \<Rightarrow> nat" where
  "digit_value c = of_char c - of_char CHR ''0''"

fun digits_from :: "nat \<Rightarrow> string \<Rightarrow> nat option" where
  "digits_from n [] = Some n"
| "digits_from n [c] = (if is_digit c then Some (10 * n + digit_value c) else None)"
| "digits_from n (c # d # cs) =
     (if is_digit c then digits_from (10 * n + digit_value c) (d # cs)
      else if c = CHR ''_'' \<and> is_digit d then digits_from n (d # cs)
      else None)"

definition unsigned_int :: "string \<Rightarrow> int option" where
  "unsigned_int s =
     (case s of
        [] \<Rightarrow> None
      | c # cs \<Rightarrow> if is_digit c then map_option int (digits_from 0 s) else None)"

definition py_int :: "string \<Rightarrow> int option" where
  "py_int s =
     (case strip s of
        [] \<Rightarrow> None
      | c # cs \<Rightarrow>
          if c = CHR ''-'' then map_option uminus (unsigned_int cs)
          else if c = CHR ''+'' then unsigned_int cs
          else unsigned_int (c # cs))"

section \<open>The evaluator\<close>

text \<open>
  \<open>flatten_dict\<close> decodes every value with Python's \<open>eval\<close>.  This section interprets a
  fragment of Python expressions: integers, strings (with an optional \<open>u\<close> prefix and the
  escapes for the backslash, the quotes, newline, carriage return and tab), \<open>True\<close>, \<open>False\<close>,
  \<open>None\<close>, list and dict displays, parentheses, unary minus, binary \<open>+\<close> and \<open>-\<close>, and calls of
  the builtin \<open>len\<close>.  Everything else (floats, tuples, sets, other names and operators) is
  \<open>Unmodelled\<close>.
\<close>

datatype pyval =
    PNone
  | PBool bool
  | PInt int
  | PStr string
  | PList "pyval list"
  | PDict "(pyval \<times> pyval) list"

subsection \<open>Tokens\<close>

datatype token = TInt int | TStr string | TName string | TOp char

datatype lex_state = Idle | InNum string | InName string | InStr char string | InEsc char string

definition is_name_start :: "char \<Rightarrow> bool" where
  "is_name_start c =
     (c \<in> set ''abcdefghijklmnopqrstuvwxyzABCDEFGHIJKLMNOPQRSTUVWXYZ_'')"

definition is_quote :: "char \<Rightarrow> bool" where
  "is_quote c = (c = CHR 0x27 \<or> c = CHR 0x22)"

definition start :: "char \<Rightarrow> (token list \<times> lex_state) option" where
  "start c =
     (if c = CHR '' '' \<or> c = CHR 0x09 then Some ([], Idle)
      else if is_digit c then Some ([], InNum [c])
      else if is_name_start c then Some ([], InName [c])
      else if is_quote c then Some ([], InStr c [])
      else if c \<in> set ''+-(){}[]:,'' then Some ([TOp c], Idle)
      else None)"

definition num_token :: "string \<Rightarrow> token option" where
  "num_token ds =
     (if length ds > 1 \<and> hd ds = CHR ''0'' then None
      else map_option (\<lambda>n. TInt (int n)) (digits_from 0 ds))"

definition unescape :: "char \<Rightarrow> char option" where
  "unescape c =
     (if c = CHR 0x5C \<or> is_quote c then Some c
      else if c = CHR ''n'' then Some (CHR 0x0A)
      else if c = CHR ''r'' then Some (CHR 0x0D)
      else if c = CHR ''t'' then Some (CHR 0x09)
      else None)"

fun step :: "lex_state \<Rightarrow> char \<Rightarrow> (token list \<times> lex_state) option" where
  "step Idle c = start c"
| "step (InNum ds) c =
     (if is_digit c then Some ([], InNum (ds @ [c]))
      else if is_name_start c \<or> c = CHR ''.'' then None
      else (case num_token ds of
              None \<Rightarrow> None
            | Some t \<Rightarrow>
                (case start c of None \<Rightarrow> None | Some (ts, st) \<Rightarrow> Some (t # ts, st))))"
| "step (InName nm) c =
     (if is_name_start c \<or> is_digit c then Some ([], InName (nm @ [c]))
      else if is_quote c
      then (if nm = ''u'' \<or> nm = ''U'' then Some ([], InStr c []) else None)
      else (case start c of None \<Rightarrow> None | Some (ts, st) \<Rightarrow> Some (TName nm # ts, st)))"
| "step (InStr q acc) c =
     (if c = q then Some ([TStr acc], Idle)
      else if c = CHR 0x5C then Some ([], InEsc q acc)
      else if c = CHR 0x0A \<or> c = CHR 0x0D then None
      else Some ([], InStr q (acc @ [c])))"
| "step (InEsc q acc) c =
     (case unescape c of None \<Rightarrow> None | Some ch \<Rightarrow> Some ([], InStr q (acc @ [ch])))"

fun finish :: "lex_state \<Rightarrow> token list option" where
  "finish Idle = Some []"
| "finish (InNum ds) = map_option (\<lambda>t. [t]) (num_token ds)"
| "finish (InName nm) = Some [TName nm]"
| "finish (InStr q acc) = None"
| "finish (InEsc q acc) = None"

fun tokenize :: "lex_state \<Rightarrow> string \<Rightarrow> token list option" where
  "tokenize st [] = finish st"
| "tokenize st (c # cs) =
     (case step st c of
        None \<Rightarrow> None
      | Some (ts, st') \<Rightarrow> map_option ((@) ts) (tokenize st' cs))"

subsection \<open>Expressions\<close>

datatype expr =
    Lit pyval
  | ListE "expr list"
  | DictE "(expr \<times> expr) list"
  | Neg expr
  | Add expr expr
  | Sub expr expr
  | Call string "expr list"

text \<open>
  Recursive descent, bounded by a depth that \<open>parse\<close> takes large enough for the number of
  tokens; a failure (\<open>None\<close>) is an expression outside the fragment.  One function parses
  every nonterminal, named by its goal: a sum, the rest of a sum after its left operand, a
  factor (an atom under minus signs), an atom, the items of a list display or of a call up to
  the closing bracket (returned as a \<open>ListE\<close>), and the pairs of a dict display (returned as a
  \<open>DictE\<close>).
\<close>

datatype goal = Sum | SumRest expr | Factor | Atom | Items char | Pairs

fun descend :: "nat \<Rightarrow> goal \<Rightarrow> token list \<Rightarrow> (expr \<times> token list) option" where
  "descend 0 g ts = None"
| "descend (Suc k) Sum ts =
     (case descend k Factor ts of
        None \<Rightarrow> None
      | Some (e, rest) \<Rightarrow> descend k (SumRest e) rest)"
| "descend (Suc k) (SumRest lhs) ts =
     (case ts of
        TOp c # rest \<Rightarrow>
          if c = CHR ''+'' then
            (case descend k Factor rest of
               None \<Rightarrow> None
             | Some (e, rest1) \<Rightarrow> descend k (SumRest (Add lhs e)) rest1)
          else if c = CHR ''-'' then
            (case descend k Factor rest of
               None \<Rightarrow> None
             | Some (e, rest1) \<Rightarrow> descend k (SumRest (Sub lhs e)) rest1)
          else Some (lhs, ts)
      | _ \<Rightarrow> Some (lhs, ts))"
| "descend (Suc k) Factor ts =
     (case ts of
        TOp c # rest \<Rightarrow>
          if c = CHR ''-'' then
            (case descend k Factor rest of
               None \<Rightarrow> None
             | Some (e, rest1) \<Rightarrow> Some (Neg e, rest1))
          else descend k Atom ts
      | _ \<Rightarrow> descend k Atom ts)"
| "descend (Suc k) Atom ts =
     (case ts of
        [] \<Rightarrow> None
      | TInt i # rest \<Rightarrow> Some (Lit (PInt i), rest)
      | TStr s # rest \<Rightarrow> Some (Lit (PStr s), rest)
      | TName nm # rest \<Rightarrow>
          if nm = ''True'' then Some (Lit (PBool True), rest)
          else if nm = ''False'' then Some (Lit (PBool False), rest)
          else if nm = ''None'' then Some (Lit PNone, rest)
          else (case rest of
                  TOp c # rest1 \<Rightarrow>
                    if c = CHR ''('' then
                      (case descend k (Items (CHR '')'')) rest1 of
                         Some (ListE args, rest2) \<Rightarrow> Some (Call nm args, rest2)
                       | _ \<Rightarrow> None)
                    else None
                | _ \<Rightarrow> None)
      | TOp c # rest \<Rightarrow>
          if c = CHR ''('' then
            (case descend k Sum rest of
               Some (e, TOp d # rest1) \<Rightarrow> if d = CHR '')'' then Some (e, rest1) else None
             | _ \<Rightarrow> None)
          else if c = CHR ''['' then descend k (Items (CHR '']'')) rest
          else if c = CHR ''{'' then descend k Pairs rest
          else None)"
| "descend (Suc k) (Items closer) ts =
     (case ts of
        [] \<Rightarrow> None
      | t # rest \<Rightarrow>
          if t = TOp closer then Some (ListE [], rest)
          else (case descend k Sum ts of
                  Some (e, TOp d # rest1) \<Rightarrow>
                    if d = CHR '','' then
                      (case descend k (Items closer) rest1 of
                         Some (ListE es, rest2) \<Rightarrow> Some (ListE (e # es), rest2)
                       | _ \<Rightarrow> None)
                    else if d = closer then Some (ListE [e], rest1)
                    else None
                | _ \<Rightarrow> None))"
| "descend (Suc k) Pairs ts =
     (case ts of
        [] \<Rightarrow> None
      | t # rest \<Rightarrow>
          if t = TOp (CHR ''}'') then Some (DictE [], rest)
          else (case descend k Sum ts of
                  Some (key, TOp c # rest1) \<Rightarrow>
                    if c = CHR '':'' then
                      (case descend k Sum rest1 of
                         Some (v, TOp d # rest2) \<Rightarrow>
                           if d = CHR '','' then
                             (case descend k Pairs rest2 of
                                Some (DictE kvs, rest3) \<Rightarrow> Some (DictE ((key, v) # kvs), rest3)
                              | _ \<Rightarrow> None)
                           else if d = CHR ''}'' then Some (DictE [(key, v)], rest2)
                           else None
                       | _ \<Rightarrow> None)
                    else None
                | _ \<Rightarrow> None))"

definition parse :: "string \<Rightarrow> expr option" where
  "parse s =
     (case tokenize Idle s of
        None \<Rightarrow> None
      | Some ts \<Rightarrow>
          (case descend (4 * length ts + 4) Sum ts of
             Some (e, []) \<Rightarrow> Some e
           | _ \<Rightarrow> None))"

subsection \<open>Values\<close>

text \<open>\<open>bool\<close> is a subclass of \<open>int\<close>: \<open>True\<close> counts as 1 in arithmetic and as a dict key.\<close>

definition as_int :: "pyval \<Rightarrow> int option" where
  "as_int v =
     (case v of PInt i \<Rightarrow> Some i | PBool b \<Rightarrow> Some (if b then 1 else 0) | _ \<Rightarrow> None)"

definition hashable :: "pyval \<Rightarrow> bool" where
  "hashable v = (case v of PList _ \<Rightarrow> False | PDict _ \<Rightarrow> False | _ \<Rightarrow> True)"

definition key_eq :: "pyval \<Rightarrow> pyval \<Rightarrow> bool" where
  "key_eq a b =
     (case as_int a of
        Some i \<Rightarrow> as_int b = Some i
      | None \<Rightarrow> as_int b = None \<and> a = b)"

fun dict_store :: "(pyval \<times> pyval) list \<Rightarrow> pyval \<Rightarrow> pyval \<Rightarrow> (pyval \<times> pyval) list" where
  "dict_store [] k v = [(k, v)]"
| "dict_store ((k', v') # d) k v =
     (if key_eq k' k then (k', v) # d else (k', v') # dict_store d k v)"

fun build_dict :: "(pyval \<times> pyval) list \<Rightarrow> (pyval \<times> pyval) list \<Rightarrow> error + pyval" where
  "build_dict d [] = Inr (PDict d)"
| "build_dict d ((k, v) # kvs) =
     (if hashable k then build_dict (dict_store d k v) kvs else Inl TypeError)"

definition py_add :: "pyval \<Rightarrow> pyval \<Rightarrow> error + pyval" where
  "py_add a b =
     (case (as_int a, as_int b) of
        (Some i, Some j) \<Rightarrow> Inr (PInt (i + j))
      | _ \<Rightarrow>
          (case (a, b) of
             (PStr s, PStr t) \<Rightarrow> Inr (PStr (s @ t))
           | (PList xs, PList ys) \<Rightarrow> Inr (PList (xs @ ys))
           | _ \<Rightarrow> Inl TypeError))"

definition py_sub :: "pyval \<Rightarrow> pyval \<Rightarrow> error + pyval" where
  "py_sub a b =
     (case (as_int a, as_int b) of
        (Some i, Some j) \<Rightarrow> Inr (PInt (i - j))
      | _ \<Rightarrow> Inl TypeError)"

definition py_neg :: "pyval \<Rightarrow> error + pyval" where
  "py_neg a = (case as_int a of Some i \<Rightarrow> Inr (PInt (- i)) | None \<Rightarrow> Inl TypeError)"

definition py_len :: "pyval list \<Rightarrow> error + pyval" where
  "py_len args =
     (case args of
        [PStr s] \<Rightarrow> Inr (PInt (int (length s)))
      | [PList xs] \<Rightarrow> Inr (PInt (int (length xs)))
      | [PDict d] \<Rightarrow> Inr (PInt (int (length d)))
      | _ \<Rightarrow> Inl TypeError)"

function eval_expr :: "expr \<Rightarrow> error + pyval"
  and eval_exprs :: "expr list \<Rightarrow> error + pyval list"
  and eval_pairs :: "(expr \<times> expr) list \<Rightarrow> error + (pyval \<times> pyval) list"
where
  "eval_expr (Lit v) = Inr v"
| "eval_expr (ListE es) =
     (case eval_exprs es of Inl x \<Rightarrow> Inl x | Inr vs \<Rightarrow> Inr (PList vs))"
| "eval_expr (DictE kvs) =
     (case eval_pairs kvs of Inl x \<Rightarrow> Inl x | Inr ps \<Rightarrow> build_dict [] ps)"
| "eval_expr (Neg e) = (case eval_expr e of Inl x \<Rightarrow> Inl x | Inr v \<Rightarrow> py_neg v)"
| "eval_expr (Add a b) =
     (case eval_expr a of
        Inl x \<Rightarrow> Inl x
      | Inr u \<Rightarrow> (case eval_expr b of Inl x \<Rightarrow> Inl x | Inr v \<Rightarrow> py_add u v))"
| "eval_expr (Sub a b) =
     (case eval_expr a of
        Inl x \<Rightarrow> Inl x
      | Inr u \<Rightarrow> (case eval_expr b of Inl x \<Rightarrow> Inl x | Inr v \<Rightarrow> py_sub u v))"
| "eval_expr (Call f args) =
     (if f = ''len''
      then (case eval_exprs args of Inl x \<Rightarrow> Inl x | Inr vs \<Rightarrow> py_len vs)
      else Inl Unmodelled)"
| "eval_exprs [] = Inr []"
| "eval_exprs (e # es) =
     (case eval_expr e of
        Inl x \<Rightarrow> Inl x
      | Inr v \<Rightarrow> (case eval_exprs es of Inl x \<Rightarrow> Inl x | Inr vs \<Rightarrow> Inr (v # vs)))"
| "eval_pairs [] = Inr []"
| "eval_pairs (kv # kvs) =
     (case eval_expr (fst kv) of
        Inl x \<Rightarrow> Inl x
      | Inr k \<Rightarrow>
          (case eval_expr (snd kv) of
             Inl x \<Rightarrow> Inl x
           | Inr v \<Rightarrow>
               (case eval_pairs kvs of Inl x \<Rightarrow> Inl x | Inr ps \<Rightarrow> Inr ((k, v) # ps))))"
  by pat_completeness auto
termination
  by (relation "measure (case_sum size (case_sum (size_list size)
        (size_list (size_prod size size))))") auto

text \<open>\<open>eval(s)\<close> for a string \<open>s\<close>.\<close>

definition py_eval :: "string \<Rightarrow> error + pyval" where
  "py_eval s = (case parse s of None \<Rightarrow> Inl Unmodelled | Some e \<Rightarrow> eval_expr e)"

subsection \<open>The literal parser of the specification\<close>

text \<open>
  The ``safe literal parser'' that the specification asks for in place of \<open>eval\<close>, defined
  here to compare the two.  It is \<open>ast.literal_eval\<close> on the same fragment: literals, displays
  of literals and a minus sign before a number; an operator or a call is a \<open>ValueError\<close>.
\<close>

function literal :: "expr \<Rightarrow> error + pyval"
  and literals :: "expr list \<Rightarrow> error + pyval list"
  and literal_pairs :: "(expr \<times> expr) list \<Rightarrow> error + (pyval \<times> pyval) list"
where
  "literal (Lit v) = Inr v"
| "literal (ListE es) = (case literals es of Inl x \<Rightarrow> Inl x | Inr vs \<Rightarrow> Inr (PList vs))"
| "literal (DictE kvs) =
     (case literal_pairs kvs of Inl x \<Rightarrow> Inl x | Inr ps \<Rightarrow> build_dict [] ps)"
| "literal (Neg e) = (case e of Lit (PInt i) \<Rightarrow> Inr (PInt (- i)) | _ \<Rightarrow> Inl ValueError)"
| "literal (Add a b) = Inl ValueError"
| "literal (Sub a b) = Inl ValueError"
| "literal (Call f args) = Inl ValueError"
| "literals [] = Inr []"
| "literals (e # es) =
     (case literal e of
        Inl x \<Rightarrow> Inl x
      | Inr v \<Rightarrow> (case literals es of Inl x \<Rightarrow> Inl x | Inr vs \<Rightarrow> Inr (v # vs)))"
| "literal_pairs [] = Inr []"
| "literal_pairs (kv # kvs) =
     (case literal (fst kv) of
        Inl x \<Rightarrow> Inl x
      | Inr k \<Rightarrow>
          (case literal (snd kv) of
             Inl x \<Rightarrow> Inl x
           | Inr v \<Rightarrow>
               (case literal_pairs kvs of Inl x \<Rightarrow> Inl x | Inr ps \<Rightarrow> Inr ((k, v) # ps))))"
  by pat_completeness auto
termination
  by (relation "measure (case_sum size (case_sum (size_list size)
        (size_list (size_prod size size))))") auto

definition literal_eval :: "string \<Rightarrow> error + pyval" where
  "literal_eval s = (case parse s of None \<Rightarrow> Inl Unmodelled | Some e \<Rightarrow> literal e)"

subsection \<open>\<open>str\<close> and \<open>repr\<close>\<close>

definition digit_char :: "nat \<Rightarrow> char" where
  "digit_char d = ''0123456789abcdef'' ! d"

fun show_nat :: "nat \<Rightarrow> string" where
  "show_nat n = (if n < 10 then [digit_char n] else show_nat (n div 10) @ [digit_char (n mod 10)])"

definition show_int :: "int \<Rightarrow> string" where
  "show_int i = (if i < 0 then CHR ''-'' # show_nat (nat (- i)) else show_nat (nat i))"

definition printable :: "char \<Rightarrow> bool" where
  "printable c = (let n = (of_char c :: nat) in (32 \<le> n \<and> n < 127) \<or> (161 \<le> n \<and> n \<noteq> 173))"

definition repr_char :: "char \<Rightarrow> char \<Rightarrow> string" where
  "repr_char q c =
     (if c = CHR 0x5C then [CHR 0x5C, CHR 0x5C]
      else if c = q then [CHR 0x5C, q]
      else if c = CHR 0x0A then [CHR 0x5C, CHR ''n'']
      else if c = CHR 0x0D then [CHR 0x5C, CHR ''r'']
      else if c = CHR 0x09 then [CHR 0x5C, CHR ''t'']
      else if printable c then [c]
      else [CHR 0x5C, CHR ''x'', digit_char (of_char c div 16), digit_char (of_char c mod 16)])"

definition repr_str :: "string \<Rightarrow> string" where
  "repr_str s =
     (let q = (if CHR 0x27 \<in> set s \<and> CHR 0x22 \<notin> set s then CHR 0x22 else CHR 0x27)
      in q # concat (map (repr_char q) s) @ [q])"

fun join :: "string \<Rightarrow> string list \<Rightarrow> string" where
  "join sep [] = []"
| "join sep [x] = x"
| "join sep (x # y # ys) = x @ sep @ join sep (y # ys)"

function py_repr :: "pyval \<Rightarrow> string"
  and reprs :: "pyval list \<Rightarrow> string list"
  and repr_pairs :: "(pyval \<times> pyval) list \<Rightarrow> string list"
where
  "py_repr PNone = ''None''"
| "py_repr (PBool b) = (if b then ''True'' else ''False'')"
| "py_repr (PInt i) = show_int i"
| "py_repr (PStr s) = repr_str s"
| "py_repr (PList vs) = ''['' @ join '', '' (reprs vs) @ '']''"
| "py_repr (PDict d) = ''{'' @ join '', '' (repr_pairs d) @ ''}''"
| "reprs [] = []"
| "reprs (v # vs) = py_repr v # reprs vs"
| "repr_pairs [] = []"
| "repr_pairs (kv # d) = (py_repr (fst kv) @ '': '' @ py_repr (snd kv)) # repr_pairs d"
  by pat_completeness auto
termination
  by (relation "measure (case_sum size (case_sum (size_list size)
        (size_list (size_prod size size))))") auto

definition py_str :: "pyval \<Rightarrow> string" where
  "py_str v = (case v of PStr s \<Rightarrow> s | _ \<Rightarrow> py_repr v)"

section \<open>The Attribute Flattener\<close>

text \<open>
  A value of a decoded JSON record.  \<open>flatten_dict\<close> gets the \<open>attributes\<close> object of a
  business; \<open>eval\<close> takes a string and raises \<open>TypeError\<close> on anything else.
\<close>

datatype json =
    JNull
  | JBool bool
  | JNumber real
  | JString string
  | JArray "json list"
  | JObject "(string \<times> json) list"

definition eval_value :: "json \<Rightarrow> error + pyval" where
  "eval_value j = (case j of JString s \<Rightarrow> py_eval s | _ \<Rightarrow> Inl TypeError)"

text \<open>\<open>attributes[k] = v\<close> on a dict of strings, which keeps the order of first insertion.\<close>

fun dict_set :: "(string \<times> string) list \<Rightarrow> string \<Rightarrow> string \<Rightarrow> (string \<times> string) list" where
  "dict_set [] k v = [(k, v)]"
| "dict_set ((k', v') # d) k v = (if k' = k then (k', v) # d else (k', v') # dict_set d k v)"

text \<open>
  The inner loop \<open>for sub_key, sub_value in value.items()\<close>; \<open>key + '_' + sub_key\<close> is a
  \<open>TypeError\<close> unless \<open>sub_key\<close> is a string.
\<close>

fun flatten_sub ::
  "string \<Rightarrow> (string \<times> string) list \<Rightarrow> (pyval \<times> pyval) list \<Rightarrow> error + (string \<times> string) list"
where
  "flatten_sub key attrs [] = Inr attrs"
| "flatten_sub key attrs ((sub_key, sub_value) # rest) =
     (case sub_key of
        PStr sk \<Rightarrow> flatten_sub key (dict_set attrs (key @ ''_'' @ sk) (py_str sub_value)) rest
      | _ \<Rightarrow> Inl TypeError)"

text \<open>The outer loop \<open>for key, value in attribute_dict.items()\<close>.\<close>

fun flatten_items ::
  "(string \<times> string) list \<Rightarrow> (string \<times> json) list \<Rightarrow> error + (string \<times> string) list"
where
  "flatten_items attrs [] = Inr attrs"
| "flatten_items attrs ((key, j) # rest) =
     (case eval_value j of
        Inl e \<Rightarrow> Inl e
      | Inr v \<Rightarrow>
          (case v of
             PDict d \<Rightarrow>
               (case flatten_sub key attrs d of
                  Inl e \<Rightarrow> Inl e
                | Inr attrs' \<Rightarrow> flatten_items attrs' rest)
           | _ \<Rightarrow> flatten_items (dict_set attrs key (py_str v)) rest))"

definition flatten_dict ::
  "(string \<times> json) list option \<Rightarrow> error + (string \<times> string) list option" where
  "flatten_dict attribute_dict =
     (case attribute_dict of
        None \<Rightarrow> Inr None
      | Some items \<Rightarrow>
          (case flatten_items [] items of Inl e \<Rightarrow> Inl e | Inr attrs \<Rightarrow> Inr (Some attrs)))"

section \<open>The relational store\<close>

text \<open>
  A cell holds NULL, an integer, a real or a text.  A row lists its cells by column name,
  in the column order of its table.
\<close>

datatype sqlval = Null | IntV int | RealV real | TextV string

type_synonym row = "(string \<times> sqlval) list"

text \<open>
  What \<open>_create_tables_if_not_exist\<close> declares for a table: its columns, the
  \<open>INTEGER PRIMARY KEY\<close> column if it has one (SQLite assigns it when the insert leaves it
  out), and the uniqueness constraints (\<open>unique=True\<close> columns and \<open>UniqueConstraint\<close>s).
  Foreign keys are declared but SQLite does not enforce them by default, and the code never
  switches enforcement on.
\<close>

record table_def =
  tbl_columns :: "string list"
  tbl_rowid :: "string option"
  tbl_uniques :: "string list list"

definition business_table :: table_def where
  "business_table = \<lparr>tbl_columns = [''id'', ''business_id_str'', ''name'', ''address'', ''city'',
      ''state'', ''postal_code'', ''latitude'', ''longitude'', ''stars'', ''review_count'',
      ''is_open''],
    tbl_rowid = Some ''id'', tbl_uniques = [[''business_id_str'']]\<rparr>"

definition days_table :: table_def where
  "days_table = \<lparr>tbl_columns = [''id'', ''day''], tbl_rowid = Some ''id'',
    tbl_uniques = [[''day'']]\<rparr>"

definition hours_table :: table_def where
  "hours_table = \<lparr>tbl_columns = [''business_id'', ''day_id'', ''open_hours''],
    tbl_rowid = None, tbl_uniques = [[''business_id'', ''day_id'']]\<rparr>"

definition users_table :: table_def where
  "users_table = \<lparr>tbl_columns = [''id'', ''user_id_str'', ''name'', ''review_count'',
      ''yelping_since'', ''useful'', ''funny'', ''cool'', ''fans'', ''friend_count'',
      ''average_stars'', ''compliment_hot'', ''compliment_more'', ''compliment_profile'',
      ''compliment_cute'', ''compliment_list'', ''compliment_note'', ''compliment_plain'',
      ''compliment_cool'', ''compliment_funny'', ''compliment_writer'', ''compliment_photos''],
    tbl_rowid = Some ''id'', tbl_uniques = [[''user_id_str'']]\<rparr>"

definition elite_table :: table_def where
  "elite_table = \<lparr>tbl_columns = [''user_id'', ''year''], tbl_rowid = None, tbl_uniques = []\<rparr>"

definition reviews_table :: table_def where
  "reviews_table = \<lparr>tbl_columns = [''id'', ''review_id_str'', ''user_id'', ''business_id'',
      ''stars'', ''date'', ''text'', ''useful'', ''funny'', ''cool''],
    tbl_rowid = Some ''id'', tbl_uniques = [[''review_id_str'']]\<rparr>"

definition tips_table :: table_def where
  "tips_table = \<lparr>tbl_columns = [''id'', ''business_id'', ''user_id'', ''text'', ''date'',
      ''compliment_count''],
    tbl_rowid = Some ''id'', tbl_uniques = []\<rparr>"

definition checkins_table :: table_def where
  "checkins_table = \<lparr>tbl_columns = [''business_id'', ''date''], tbl_rowid = None,
    tbl_uniques = []\<rparr>"

definition category_table :: table_def where
  "category_table = \<lparr>tbl_columns = [''id'', ''name''], tbl_rowid = Some ''id'',
    tbl_uniques = [[''name'']]\<rparr>"

definition category_business_table :: table_def where
  "category_business_table = \<lparr>tbl_columns = [''category_id'', ''business_id''],
    tbl_rowid = None, tbl_uniques = [[''category_id'', ''business_id'']]\<rparr>"

definition friends_table :: table_def where
  "friends_table = \<lparr>tbl_columns = [''user1_id'', ''user2_id''], tbl_rowid = None,
    tbl_uniques = [[''user1_id'', ''user2_id'']]\<rparr>"

definition attributes_table :: table_def where
  "attributes_table = \<lparr>tbl_columns = [''id'', ''name''], tbl_rowid = Some ''id'',
    tbl_uniques = [[''name'']]\<rparr>"

definition business_attributes_table :: table_def where
  "business_attributes_table = \<lparr>tbl_columns = [''attribute_id'', ''business_id'', ''value''],
    tbl_rowid = None, tbl_uniques = [[''attribute_id'', ''business_id'']]\<rparr>"

definition photos_table :: table_def where
  "photos_table = \<lparr>tbl_columns = [''id'', ''photo_id_str'', ''business_id'', ''caption'',
      ''label''],
    tbl_rowid = Some ''id'', tbl_uniques = [[''photo_id_str'']]\<rparr>"

text \<open>The database file: the rows of the fourteen tables.\<close>

record database =
  business :: "row list"
  days :: "row list"
  hours :: "row list"
  users :: "row list"
  elite :: "row list"
  reviews :: "row list"
  tips :: "row list"
  checkins :: "row list"
  category :: "row list"
  category_business :: "row list"
  friends :: "row list"
  attributes :: "row list"
  business_attributes :: "row list"
  photos :: "row list"

definition empty_database :: database where
  "empty_database = \<lparr>business = [], days = [], hours = [], users = [], elite = [],
     reviews = [], tips = [], checkins = [], category = [], category_business = [],
     friends = [], attributes = [], business_attributes = [], photos = []\<rparr>"

subsection \<open>Statements\<close>

definition col :: "row \<Rightarrow> string \<Rightarrow> sqlval" where
  "col r c = (case map_of r c of Some v \<Rightarrow> v | None \<Rightarrow> Null)"

text \<open>The row an insert builds: every column of the table, NULL where no value is given.\<close>

definition complete_row :: "table_def \<Rightarrow> (string \<times> sqlval) list \<Rightarrow> row" where
  "complete_row t vals = map (\<lambda>c. (c, col vals c)) (tbl_columns t)"

text \<open>
  SQLAlchemy refuses to compile an insert whose values name a column that the table does
  not have.
\<close>

definition unconsumed :: "table_def \<Rightarrow> (string \<times> sqlval) list \<Rightarrow> string list" where
  "unconsumed t vals = filter (\<lambda>c. c \<notin> set (tbl_columns t)) (map fst vals)"

text \<open>
  The rowid SQLite assigns: one more than the largest in use, \<open>1\<close> in an empty table.
\<close>

definition rowid_of :: "string \<Rightarrow> row \<Rightarrow> int" where
  "rowid_of c r = (case col r c of IntV i \<Rightarrow> i | _ \<Rightarrow> 0)"

definition next_rowid :: "string \<Rightarrow> row list \<Rightarrow> int" where
  "next_rowid c rows = fold max (map (rowid_of c) rows) 0 + 1"

definition assign_rowid :: "table_def \<Rightarrow> row list \<Rightarrow> row \<Rightarrow> row" where
  "assign_rowid t rows r =
     (case tbl_rowid t of
        None \<Rightarrow> r
      | Some c \<Rightarrow>
          if col r c = Null
          then map (\<lambda>(k, v). if k = c then (k, IntV (next_rowid c rows)) else (k, v)) r
          else r)"

text \<open>
  A new row violates a key (the primary key or a uniqueness constraint) when a stored row
  agrees with it on every column of the key; a NULL never agrees with anything.
\<close>

definition key_sets :: "table_def \<Rightarrow> string list list" where
  "key_sets t = (case tbl_rowid t of Some c \<Rightarrow> [[c]] | None \<Rightarrow> []) @ tbl_uniques t"

definition same_key :: "row \<Rightarrow> string list \<Rightarrow> row \<Rightarrow> bool" where
  "same_key r u r' = list_all (\<lambda>c. col r c \<noteq> Null \<and> col r' c = col r c) u"

definition conflicts :: "table_def \<Rightarrow> row list \<Rightarrow> row \<Rightarrow> bool" where
  "conflicts t rows r = list_ex (\<lambda>u. list_ex (same_key r u) rows) (key_sets t)"

text \<open>
  \<open>conn.execute(Insert(table).values(**vals))\<close>: the new rows and \<open>inserted_primary_key[0]\<close>.
\<close>

definition insert_row ::
  "table_def \<Rightarrow> row list \<Rightarrow> (string \<times> sqlval) list \<Rightarrow> error + (row list \<times> sqlval)" where
  "insert_row t rows vals =
     (if unconsumed t vals \<noteq> [] then Inl CompileError
      else let r = assign_rowid t rows (complete_row t vals) in
        if conflicts t rows r then Inl IntegrityError
        else Inr (rows @ [r], case tbl_rowid t of Some c \<Rightarrow> col r c | None \<Rightarrow> Null))"

text \<open>The same statement with \<open>.on_conflict_do_nothing()\<close>: a conflicting row is dropped.\<close>

definition insert_row_or_ignore ::
  "table_def \<Rightarrow> row list \<Rightarrow> (string \<times> sqlval) list \<Rightarrow> error + row list" where
  "insert_row_or_ignore t rows vals =
     (if unconsumed t vals \<noteq> [] then Inl CompileError
      else let r = assign_rowid t rows (complete_row t vals) in
        if conflicts t rows r then Inr rows else Inr (rows @ [r]))"

text \<open>
  \<open>Insert(table).values([...])\<close> with a list of rows: one statement, so one conflicting row
  fails all of it, unless \<open>on_conflict_do_nothing\<close> drops the conflicting rows one by one.
  With an empty list SQLAlchemy has no values at all and emits \<open>INSERT ... DEFAULT VALUES\<close>,
  a row of NULLs; SQLite's grammar has no \<open>ON CONFLICT\<close> clause after \<open>DEFAULT VALUES\<close>.
\<close>

fun insert_each ::
  "table_def \<Rightarrow> bool \<Rightarrow> row list \<Rightarrow> (string \<times> sqlval) list list \<Rightarrow> error + row list" where
  "insert_each t ignore rows [] = Inr rows"
| "insert_each t ignore rows (vals # rest) =
     (if unconsumed t vals \<noteq> [] then Inl CompileError
      else let r = assign_rowid t rows (complete_row t vals) in
        if conflicts t rows r
        then (if ignore then insert_each t ignore rows rest else Inl IntegrityError)
        else insert_each t ignore (rows @ [r]) rest)"

definition insert_many ::
  "table_def \<Rightarrow> bool \<Rightarrow> row list \<Rightarrow> (string \<times> sqlval) list list \<Rightarrow> error + row list" where
  "insert_many t ignore rows valss =
     (if valss = []
      then (if ignore then Inl OperationalError
            else (case insert_row t rows [] of Inl e \<Rightarrow> Inl e | Inr (rows', _) \<Rightarrow> Inr rows'))
      else insert_each t ignore rows valss)"

text \<open>
  \<open>select([table.c.<out>]).where(table.c.<c> == s)\<close> and \<open>... .where(table.c.<c>.in_(ss))\<close>
  followed by \<open>fetchall()\<close>.  The rows come in table order here; SQLite promises no order.
\<close>

definition select_eq :: "row list \<Rightarrow> string \<Rightarrow> string \<Rightarrow> row list" where
  "select_eq rows c s = filter (\<lambda>r. col r c = TextV s) rows"

definition select_in :: "row list \<Rightarrow> string \<Rightarrow> string list \<Rightarrow> row list" where
  "select_in rows c ss = filter (\<lambda>r. col r c \<in> set (map TextV ss)) rows"

section \<open>The Key Resolver\<close>

text \<open>
  \<open>_get_add_user_id(connection, table, id_str)\<close>, with \<open>table\<close> the users table, as every
  caller passes it: the id of the row whose \<open>user_id_str\<close> is \<open>id_str\<close>, after inserting a
  row holding only that column when there is none.
\<close>

definition get_add_user_id :: "database \<Rightarrow> string \<Rightarrow> error + (database \<times> sqlval)" where
  "get_add_user_id db id_str =
     (case select_eq (users db) ''user_id_str'' id_str of
        r # _ \<Rightarrow> Inr (db, col r ''id'')
      | [] \<Rightarrow>
          (case insert_row users_table (users db) [(''user_id_str'', TextV id_str)] of
             Inl e \<Rightarrow> Inl e
           | Inr (rows, pk) \<Rightarrow> Inr (db\<lparr>users := rows\<rparr>, pk)))"

text \<open>
  \<open>_get_add_business_id(connection, table, id_str)\<close>, with \<open>table\<close> the business table.
  The lookup is by \<open>business_id_str\<close>; the insert of the missing row is written
  \<open>Insert(table).values(user_id_str=id_str)\<close> in the source, and so it is here.
\<close>

definition get_add_business_id :: "database \<Rightarrow> string \<Rightarrow> error + (database \<times> sqlval)" where
  "get_add_business_id db id_str =
     (case select_eq (business db) ''business_id_str'' id_str of
        r # _ \<Rightarrow> Inr (db, col r ''id'')
      | [] \<Rightarrow>
          (case insert_row business_table (business db) [(''user_id_str'', TextV id_str)] of
             Inl e \<Rightarrow> Inl e
           | Inr (rows, pk) \<Rightarrow> Inr (db\<lparr>business := rows\<rparr>, pk)))"

section \<open>The source records\<close>

text \<open>
  One record of each source file, as \<open>file_line_generator\<close> yields it after \<open>json.loads\<close>.
  The fields are the ones the loaders read.  A field that a loader tests against \<open>None\<close> is
  an option; the others have the type of the dataset's field and of the column they go to.
\<close>

record business_json =
  bj_business_id :: string
  bj_name :: string
  bj_address :: string
  bj_city :: string
  bj_state :: string
  bj_postal_code :: string
  bj_latitude :: real
  bj_longitude :: real
  bj_stars :: real
  bj_review_count :: int
  bj_is_open :: int
  bj_categories :: "string option"
  bj_attributes :: "(string \<times> json) list option"
  bj_hours :: "(string \<times> string) list option"

record user_json =
  uj_user_id :: string
  uj_name :: string
  uj_review_count :: int
  uj_yelping_since :: string
  uj_useful :: int
  uj_funny :: int
  uj_cool :: int
  uj_fans :: int
  uj_average_stars :: real
  uj_compliment_hot :: int
  uj_compliment_more :: int
  uj_compliment_profile :: int
  uj_compliment_cute :: int
  uj_compliment_list :: int
  uj_compliment_note :: int
  uj_compliment_plain :: int
  uj_compliment_cool :: int
  uj_compliment_funny :: int
  uj_compliment_writer :: int
  uj_compliment_photos :: int
  uj_elite :: "string option"
  uj_friends :: string

record review_json =
  rj_review_id :: string
  rj_user_id :: string
  rj_business_id :: string
  rj_stars :: int
  rj_date :: string
  rj_text :: string
  rj_useful :: int
  rj_funny :: int
  rj_cool :: int

record checkin_json =
  cj_business_id :: string
  cj_date :: string

record tip_json =
  tj_business_id :: string
  tj_user_id :: string
  tj_text :: string
  tj_date :: string
  tj_compliment_count :: int

record photo_json =
  pj_photo_id :: string
  pj_business_id :: string
  pj_caption :: string
  pj_label :: string

section \<open>The Entity Loaders\<close>

text \<open>
  Every loader runs \<open>with self.engine.begin() as conn: for record in file_line_generator(path)\<close>:
  one transaction around the loop over the records.  An exception that leaves the loop rolls
  the transaction back and propagates; the loader's result is the database it leaves behind
  and the exception, if any.
\<close>

fun for_each ::
  "(database \<Rightarrow> 'a \<Rightarrow> error + database) \<Rightarrow> 'a list \<Rightarrow> database \<Rightarrow> error + database" where
  "for_each body [] db = Inr db"
| "for_each body (r # rs) db =
     (case body db r of Inl e \<Rightarrow> Inl e | Inr db' \<Rightarrow> for_each body rs db')"

definition transaction ::
  "(database \<Rightarrow> error + database) \<Rightarrow> database \<Rightarrow> database \<times> error option" where
  "transaction body db = (case body db of Inl e \<Rightarrow> (db, Some e) | Inr db' \<Rightarrow> (db', None))"

subsection \<open>Businesses\<close>

definition day_names :: "string list" where
  "day_names = [''Monday'', ''Tuesday'', ''Wednesday'', ''Thursday'', ''Friday'', ''Saturday'',
     ''Sunday'']"

text \<open>\<open>_initialize_days_table\<close>: the seven days, numbered from 1, in a transaction of its own.\<close>

definition initialize_days_table :: "database \<Rightarrow> error + (database \<times> (string \<times> int) list)" where
  "initialize_days_table db =
     (let day_id_days_dict = zip day_names (map int [1..<8]) in
      case insert_many days_table True (days db)
             (map (\<lambda>(day, i). [(''id'', IntV i), (''day'', TextV day)]) day_id_days_dict) of
        Inl e \<Rightarrow> Inl e
      | Inr rows \<Rightarrow> Inr (db\<lparr>days := rows\<rparr>, day_id_days_dict))"

text \<open>The block under \<open># category table\<close>, for \<open>business['categories']\<close> that is not \<open>None\<close>.\<close>

definition load_categories :: "database \<Rightarrow> sqlval \<Rightarrow> string \<Rightarrow> error + database" where
  "load_categories db business_id categories =
     (let business_categories = map strip (str_split categories '', '') in
      case insert_many category_table True (category db)
             (map (\<lambda>c. [(''name'', TextV (strip c))]) business_categories) of
        Inl e \<Rightarrow> Inl e
      | Inr category_rows \<Rightarrow>
          (let category_ids =
                 map (\<lambda>r. col r ''id'') (select_in category_rows ''name'' business_categories)
           in case insert_many category_business_table False (category_business db)
                     (map (\<lambda>cat_id. [(''category_id'', cat_id), (''business_id'', business_id)])
                        category_ids) of
                Inl e \<Rightarrow> Inl e
              | Inr cb_rows \<Rightarrow>
                  Inr (db\<lparr>category := category_rows, category_business := cb_rows\<rparr>)))"

text \<open>
  The block under \<open># attributes table\<close>, for \<open>business['attributes']\<close> that is not \<open>None\<close>.
  The names are stored stripped and looked up unstripped, as in the source.
\<close>

definition attribute_values ::
  "(string \<times> string) list \<Rightarrow> sqlval \<Rightarrow> row \<Rightarrow> (string \<times> sqlval) list option" where
  "attribute_values attrs business_id entry =
     (case col entry ''name'' of
        TextV n \<Rightarrow>
          map_option
            (\<lambda>v. [(''attribute_id'', col entry ''id''), (''business_id'', business_id),
                  (''value'', TextV (strip v))])
            (map_of attrs n)
      | _ \<Rightarrow> None)"

definition load_attributes ::
  "database \<Rightarrow> sqlval \<Rightarrow> (string \<times> json) list \<Rightarrow> error + database" where
  "load_attributes db business_id attribute_dict =
     (case flatten_dict (Some attribute_dict) of
        Inl e \<Rightarrow> Inl e
      | Inr None \<Rightarrow> Inl AttributeError
      | Inr (Some attrs) \<Rightarrow>
          (case insert_many attributes_table True (attributes db)
                  (map (\<lambda>cat_name. [(''name'', TextV (strip cat_name))]) (map fst attrs)) of
             Inl e \<Rightarrow> Inl e
           | Inr attribute_rows \<Rightarrow>
               (let attribute_ids_terms = select_in attribute_rows ''name'' (map fst attrs) in
                case those (map (attribute_values attrs business_id) attribute_ids_terms) of
                  None \<Rightarrow> Inl KeyError
                | Some vals \<Rightarrow>
                    (case insert_many business_attributes_table False (business_attributes db)
                            vals of
                       Inl e \<Rightarrow> Inl e
                     | Inr ba_rows \<Rightarrow>
                         Inr (db\<lparr>attributes := attribute_rows,
                                 business_attributes := ba_rows\<rparr>)))))"

text \<open>
  The block under \<open># hours\<close>, for \<open>business['hours']\<close> that is not \<open>None\<close>.  A day that is
  not one of the seven names is a \<open>KeyError\<close> of \<open>day_id_dict[day]\<close>.
\<close>

definition load_hours ::
  "(string \<times> int) list \<Rightarrow> database \<Rightarrow> sqlval \<Rightarrow> (string \<times> string) list \<Rightarrow> error + database"
where
  "load_hours day_id_dict db business_id hours_dict =
     (let days_dict = filter (\<lambda>(day, open_hours). open_hours \<noteq> ''0:0-0:0'') hours_dict in
      case those (map (\<lambda>(day, open_hours).
                    map_option
                      (\<lambda>day_id. [(''business_id'', business_id), (''day_id'', IntV day_id),
                                 (''open_hours'', TextV open_hours)])
                      (map_of day_id_dict day)) days_dict) of
        None \<Rightarrow> Inl KeyError
      | Some vals \<Rightarrow>
          (case insert_many hours_table False (hours db) vals of
             Inl e \<Rightarrow> Inl e
           | Inr rows \<Rightarrow> Inr (db\<lparr>hours := rows\<rparr>)))"

definition business_values :: "business_json \<Rightarrow> (string \<times> sqlval) list" where
  "business_values b =
     [(''business_id_str'', TextV (strip (bj_business_id b))),
      (''name'', TextV (strip (bj_name b))),
      (''address'', TextV (strip (bj_address b))),
      (''city'', TextV (strip (bj_city b))),
      (''state'', TextV (strip (bj_state b))),
      (''postal_code'', TextV (strip (bj_postal_code b))),
      (''latitude'', RealV (bj_latitude b)),
      (''longitude'', RealV (bj_longitude b)),
      (''stars'', RealV (bj_stars b)),
      (''review_count'', IntV (bj_review_count b)),
      (''is_open'', IntV (bj_is_open b))]"

text \<open>
  The body of the loop of \<open>_load_business_json\<close>.  \<open>except IntegrityError: continue\<close> guards
  the insert of the business row only.
\<close>

definition load_business :: "(string \<times> int) list \<Rightarrow> database \<Rightarrow> business_json \<Rightarrow> error + database"
where
  "load_business day_id_dict db b =
     (case insert_row business_table (business db) (business_values b) of
        Inl e \<Rightarrow> if e = IntegrityError then Inr db else Inl e
      | Inr (rows, business_id) \<Rightarrow>
          (case (case bj_categories b of
                   None \<Rightarrow> Inr (db\<lparr>business := rows\<rparr>)
                 | Some categories \<Rightarrow>
                     load_categories (db\<lparr>business := rows\<rparr>) business_id categories) of
             Inl e \<Rightarrow> Inl e
           | Inr db1 \<Rightarrow>
               (case (case bj_attributes b of
                        None \<Rightarrow> Inr db1
                      | Some attribute_dict \<Rightarrow> load_attributes db1 business_id attribute_dict) of
                  Inl e \<Rightarrow> Inl e
                | Inr db2 \<Rightarrow>
                    (case bj_hours b of
                       None \<Rightarrow> Inr db2
                     | Some hours_dict \<Rightarrow> load_hours day_id_dict db2 business_id hours_dict))))"

definition load_business_json :: "business_json list \<Rightarrow> database \<Rightarrow> database \<times> error option"
where
  "load_business_json records db =
     (case initialize_days_table db of
        Inl e \<Rightarrow> (db, Some e)
      | Inr (db1, day_id_dict) \<Rightarrow> transaction (for_each (load_business day_id_dict) records) db1)"

subsection \<open>Users\<close>

text \<open>\<open>fix_split_elite\<close>, local to \<open>_load_users_json\<close>; \<open>int\<close> may raise \<open>ValueError\<close>.\<close>

definition fix_split_elite :: "string \<Rightarrow> error + int list" where
  "fix_split_elite elite_str =
     (let elite = re_sub ''20,20'' ''2020'' elite_str in
      case those (map (\<lambda>year. py_int (strip year)) (str_split elite '','')) of
        None \<Rightarrow> Inl ValueError
      | Some years \<Rightarrow> Inr years)"

definition user_values :: "user_json \<Rightarrow> (string \<times> sqlval) list" where
  "user_values u =
     [(''user_id_str'', TextV (uj_user_id u)),
      (''name'', TextV (uj_name u)),
      (''review_count'', IntV (uj_review_count u)),
      (''yelping_since'', TextV (uj_yelping_since u)),
      (''useful'', IntV (uj_useful u)),
      (''funny'', IntV (uj_funny u)),
      (''cool'', IntV (uj_cool u)),
      (''fans'', IntV (uj_fans u)),
      (''average_stars'', RealV (uj_average_stars u)),
      (''compliment_hot'', IntV (uj_compliment_hot u)),
      (''compliment_more'', IntV (uj_compliment_more u)),
      (''compliment_profile'', IntV (uj_compliment_profile u)),
      (''compliment_cute'', IntV (uj_compliment_cute u)),
      (''compliment_list'', IntV (uj_compliment_list u)),
      (''compliment_note'', IntV (uj_compliment_note u)),
      (''compliment_plain'', IntV (uj_compliment_plain u)),
      (''compliment_cool'', IntV (uj_compliment_cool u)),
      (''compliment_funny'', IntV (uj_compliment_funny u)),
      (''compliment_writer'', IntV (uj_compliment_writer u)),
      (''compliment_photos'', IntV (uj_compliment_photos u))]"

text \<open>The body of the loop of \<open>_load_users_json\<close>.\<close>

definition load_user :: "database \<Rightarrow> user_json \<Rightarrow> error + database" where
  "load_user db u =
     (case insert_row users_table (users db) (user_values u) of
        Inl e \<Rightarrow> if e = IntegrityError then Inr db else Inl e
      | Inr (rows, user_id) \<Rightarrow>
          (if uj_elite u \<noteq> None \<and> uj_elite u \<noteq> Some ''''
           then (case fix_split_elite (the (uj_elite u)) of
                   Inl e \<Rightarrow> Inl e
                 | Inr years_elite \<Rightarrow>
                     if years_elite \<noteq> []
                     then (case insert_many elite_table False (elite db)
                                  (map (\<lambda>year. [(''user_id'', user_id), (''year'', IntV year)])
                                     years_elite) of
                             Inl e \<Rightarrow> Inl e
                           | Inr elite_rows \<Rightarrow> Inr (db\<lparr>users := rows, elite := elite_rows\<rparr>))
                     else Inr (db\<lparr>users := rows\<rparr>))
           else Inr (db\<lparr>users := rows\<rparr>)))"

definition load_users_json :: "user_json list \<Rightarrow> database \<Rightarrow> database \<times> error option" where
  "load_users_json records db = transaction (for_each load_user records) db"

subsection \<open>The Friend-Graph Linker\<close>

text \<open>\<open>update(users_table).where(users_table.c.id == uid).values(friend_count=n)\<close>.\<close>

definition set_col :: "string \<Rightarrow> sqlval \<Rightarrow> row \<Rightarrow> row" where
  "set_col c v r = map (\<lambda>(k, old). if k = c then (k, v) else (k, old)) r"

definition update_friend_count :: "row list \<Rightarrow> sqlval \<Rightarrow> int \<Rightarrow> row list" where
  "update_friend_count rows uid n =
     map (\<lambda>r. if col r ''id'' = uid then set_col ''friend_count'' (IntV n) r else r) rows"

text \<open>
  The body of the loop of \<open>_connect_users\<close>.  \<open>user_id[0][0]\<close> is an \<open>IndexError\<close> when no row
  has the record's \<open>user_id\<close>.
\<close>

definition connect_user :: "database \<Rightarrow> user_json \<Rightarrow> error + database" where
  "connect_user db u =
     (let user_id = select_eq (users db) ''user_id_str'' (uj_user_id u);
          friends_list = map strip (str_split (uj_friends u) '', '');
          friend_count = int (length friends_list)
      in case user_id of
           [] \<Rightarrow> Inl IndexError
         | r # _ \<Rightarrow>
             (let uid = col r ''id'';
                  db1 = db\<lparr>users := update_friend_count (users db) uid friend_count\<rparr>;
                  friend_ids =
                    map (\<lambda>f. col f ''id'') (select_in (users db1) ''user_id_str'' friends_list)
              in if friend_ids = [] then Inr db1
                 else (case insert_many friends_table True (friends db1)
                              (map (\<lambda>friend. [(''user1_id'', uid), (''user2_id'', friend)])
                                 friend_ids) of
                         Inl e \<Rightarrow> Inl e
                       | Inr rows \<Rightarrow> Inr (db1\<lparr>friends := rows\<rparr>))))"

definition connect_users :: "user_json list \<Rightarrow> database \<Rightarrow> database \<times> error option" where
  "connect_users records db = transaction (for_each connect_user records) db"

subsection \<open>Reviews, check-ins, tips and photos\<close>

definition load_review :: "database \<Rightarrow> review_json \<Rightarrow> error + database" where
  "load_review db r =
     (case get_add_user_id db (rj_user_id r) of
        Inl e \<Rightarrow> Inl e
      | Inr (db1, user_id) \<Rightarrow>
          (case get_add_business_id db1 (rj_business_id r) of
             Inl e \<Rightarrow> Inl e
           | Inr (db2, business_id) \<Rightarrow>
               (case insert_row_or_ignore reviews_table (reviews db2)
                       [(''review_id_str'', TextV (rj_review_id r)),
                        (''user_id'', user_id),
                        (''business_id'', business_id),
                        (''stars'', IntV (rj_stars r)),
                        (''date'', TextV (rj_date r)),
                        (''text'', TextV (rj_text r)),
                        (''useful'', IntV (rj_useful r)),
                        (''funny'', IntV (rj_funny r)),
                        (''cool'', IntV (rj_cool r))] of
                  Inl e \<Rightarrow> Inl e
                | Inr rows \<Rightarrow> Inr (db2\<lparr>reviews := rows\<rparr>))))"

definition load_review_json :: "review_json list \<Rightarrow> database \<Rightarrow> database \<times> error option" where
  "load_review_json records db = transaction (for_each load_review records) db"

definition load_checkin :: "database \<Rightarrow> checkin_json \<Rightarrow> error + database" where
  "load_checkin db c =
     (let checkin_dates = map strip (str_split (cj_date c) '','') in
      case get_add_business_id db (cj_business_id c) of
        Inl e \<Rightarrow> Inl e
      | Inr (db1, business_id) \<Rightarrow>
          (case insert_many checkins_table False (checkins db1)
                  (map (\<lambda>date. [(''business_id'', business_id), (''date'', TextV date)])
                     checkin_dates) of
             Inl e \<Rightarrow> Inl e
           | Inr rows \<Rightarrow> Inr (db1\<lparr>checkins := rows\<rparr>)))"

definition load_checkin_json :: "checkin_json list \<Rightarrow> database \<Rightarrow> database \<times> error option" where
  "load_checkin_json records db = transaction (for_each load_checkin records) db"

definition load_tip :: "database \<Rightarrow> tip_json \<Rightarrow> error + database" where
  "load_tip db t =
     (case get_add_user_id db (tj_user_id t) of
        Inl e \<Rightarrow> Inl e
      | Inr (db1, user_id) \<Rightarrow>
          (case get_add_business_id db1 (tj_business_id t) of
             Inl e \<Rightarrow> Inl e
           | Inr (db2, business_id) \<Rightarrow>
               (case insert_row_or_ignore tips_table (tips db2)
                       [(''business_id'', business_id),
                        (''user_id'', user_id),
                        (''text'', TextV (tj_text t)),
                        (''date'', TextV (tj_date t)),
                        (''compliment_count'', IntV (tj_compliment_count t))] of
                  Inl e \<Rightarrow> Inl e
                | Inr rows \<Rightarrow> Inr (db2\<lparr>tips := rows\<rparr>))))"

definition load_tip_json :: "tip_json list \<Rightarrow> database \<Rightarrow> database \<times> error option" where
  "load_tip_json records db = transaction (for_each load_tip records) db"

definition load_photo :: "database \<Rightarrow> photo_json \<Rightarrow> error + database" where
  "load_photo db p =
     (case get_add_business_id db (pj_business_id p) of
        Inl e \<Rightarrow> Inl e
      | Inr (db1, business_id) \<Rightarrow>
          (case insert_row_or_ignore photos_table (photos db1)
                  [(''photo_id_str'', TextV (pj_photo_id p)),
                   (''business_id'', business_id),
                   (''caption'', TextV (pj_caption p)),
                   (''label'', TextV (pj_label p))] of
             Inl e \<Rightarrow> Inl e
           | Inr rows \<Rightarrow> Inr (db1\<lparr>photos := rows\<rparr>)))"

definition load_photos_json :: "photo_json list \<Rightarrow> database \<Rightarrow> database \<times> error option" where
  "load_photos_json records db = transaction (for_each load_photo records) db"

section \<open>The Orchestrator\<close>

text \<open>
  The raw data folder: the names of its entries and what each file holds.  A file holds the
  records of one kind; a loader pointed at a file of another kind is \<open>Unmodelled\<close>.
\<close>

datatype file_content =
    BusinessRecords "business_json list"
  | UserRecords "user_json list"
  | ReviewRecords "review_json list"
  | CheckinRecords "checkin_json list"
  | TipRecords "tip_json list"
  | PhotoRecords "photo_json list"

type_synonym folder = "(string \<times> file_content) list"

text \<open>
  \<open>path.suffix\<close>: the name from its last dot on, empty when the name has no dot, starts with
  its only dot or ends with a dot.
\<close>

definition path_suffix :: "string \<Rightarrow> string" where
  "path_suffix name =
     (let after = length (takeWhile (\<lambda>c. c \<noteq> CHR ''.'') (rev name)) in
      if CHR ''.'' \<in> set name \<and> 0 < after \<and> Suc after < length name
      then drop (length name - Suc after) name
      else [])"

text \<open>
  The six flags and paths that the loop over \<open>base_path.iterdir()\<close> sets: a path is present
  exactly when its flag is \<open>True\<close>, and a later file of the same kind replaces an earlier one.
\<close>

record found =
  business_file :: "(string \<times> file_content) option"
  user_file :: "(string \<times> file_content) option"
  review_file :: "(string \<times> file_content) option"
  checkin_file :: "(string \<times> file_content) option"
  tip_file :: "(string \<times> file_content) option"
  photo_file :: "(string \<times> file_content) option"

definition nothing_found :: found where
  "nothing_found = \<lparr>business_file = None, user_file = None, review_file = None,
     checkin_file = None, tip_file = None, photo_file = None\<rparr>"

definition classify :: "found \<Rightarrow> string \<times> file_content \<Rightarrow> found" where
  "classify f path =
     (if path_suffix (fst path) = ''.json'' then
        (if contains ''business'' (fst path) then f\<lparr>business_file := Some path\<rparr>
         else if contains ''user'' (fst path) then f\<lparr>user_file := Some path\<rparr>
         else if contains ''review'' (fst path) then f\<lparr>review_file := Some path\<rparr>
         else if contains ''checkin'' (fst path) then f\<lparr>checkin_file := Some path\<rparr>
         else if contains ''tip'' (fst path) then f\<lparr>tip_file := Some path\<rparr>
         else if contains ''photo'' (fst path) then f\<lparr>photo_file := Some path\<rparr>
         else f)
      else f)"

definition discover :: "folder \<Rightarrow> found" where
  "discover dir = foldl classify nothing_found dir"

text \<open>\<open>verbose_loading\<close>: the line it prints, if any.\<close>

definition verbose_loading :: "string \<Rightarrow> bool \<Rightarrow> bool \<Rightarrow> string list" where
  "verbose_loading file_name connecting_friends verbose =
     (if verbose
      then (if connecting_friends then [''Connecting Users''] else [''Loading: '' @ file_name])
      else [])"

text \<open>
  A run: the database, the lines printed so far and the exception that ended it, if one
  did.  A loader first prints its progress line, then runs; after an exception nothing
  runs any more.
\<close>

record run =
  run_db :: database
  printed :: "string list"
  raised :: "error option"

definition call_loader ::
  "string list \<Rightarrow> ('a list \<Rightarrow> database \<Rightarrow> database \<times> error option) \<Rightarrow> error + 'a list \<Rightarrow> run \<Rightarrow> run"
where
  "call_loader progress loader records r =
     (if raised r \<noteq> None then r
      else (case records of
              Inl e \<Rightarrow> r\<lparr>printed := printed r @ progress, raised := Some e\<rparr>
            | Inr rs \<Rightarrow>
                (let (db', e) = loader rs (run_db r)
                 in \<lparr>run_db = db', printed = printed r @ progress, raised = e\<rparr>)))"

definition business_records :: "file_content \<Rightarrow> error + business_json list" where
  "business_records c = (case c of BusinessRecords rs \<Rightarrow> Inr rs | _ \<Rightarrow> Inl Unmodelled)"

definition user_records :: "file_content \<Rightarrow> error + user_json list" where
  "user_records c = (case c of UserRecords rs \<Rightarrow> Inr rs | _ \<Rightarrow> Inl Unmodelled)"

definition review_records :: "file_content \<Rightarrow> error + review_json list" where
  "review_records c = (case c of ReviewRecords rs \<Rightarrow> Inr rs | _ \<Rightarrow> Inl Unmodelled)"

definition checkin_records :: "file_content \<Rightarrow> error + checkin_json list" where
  "checkin_records c = (case c of CheckinRecords rs \<Rightarrow> Inr rs | _ \<Rightarrow> Inl Unmodelled)"

definition tip_records :: "file_content \<Rightarrow> error + tip_json list" where
  "tip_records c = (case c of TipRecords rs \<Rightarrow> Inr rs | _ \<Rightarrow> Inl Unmodelled)"

definition photo_records :: "file_content \<Rightarrow> error + photo_json list" where
  "photo_records c = (case c of PhotoRecords rs \<Rightarrow> Inr rs | _ \<Rightarrow> Inl Unmodelled)"

text \<open>
  \<open>_create_tables_if_not_exist\<close> creates the tables that are missing and writes no row: on
  the rows of the fourteen tables it is the identity.
\<close>

definition create_tables_if_not_exist :: "database \<Rightarrow> database" where
  "create_tables_if_not_exist db = db"

definition failed_message :: string where
  "failed_message = ''failed! data folder must contain business, user, and review json files''"

text \<open>
  \<open>create_full_database\<close>: the run it leaves and the value it returns (\<open>Some (-1)\<close> for
  \<open>return -1\<close>, \<open>None\<close> when it falls off its end or an exception leaves it).
\<close>

definition optional_loaders :: "bool \<Rightarrow> bool \<Rightarrow> found \<Rightarrow> run \<Rightarrow> run" where
  "optional_loaders verbose include_photos f r0 =
     (let r1 = (case checkin_file f of
                  None \<Rightarrow> r0
                | Some (name, c) \<Rightarrow>
                    call_loader (verbose_loading name False verbose) load_checkin_json
                      (checkin_records c) r0);
          r2 = (case tip_file f of
                  None \<Rightarrow> r1
                | Some (name, c) \<Rightarrow>
                    call_loader (verbose_loading name False verbose) load_tip_json
                      (tip_records c) r1)
      in case photo_file f of
           None \<Rightarrow> r2
         | Some (name, c) \<Rightarrow>
             if include_photos
             then call_loader (verbose_loading name False verbose) load_photos_json
                    (photo_records c) r2
             else r2)"

definition create_full_database :: "bool \<Rightarrow> bool \<Rightarrow> folder \<Rightarrow> database \<Rightarrow> run \<times> int option" where
  "create_full_database verbose include_photos dir db =
     (let r0 = \<lparr>run_db = create_tables_if_not_exist db, printed = [], raised = None\<rparr>;
          f = discover dir
      in case (business_file f, user_file f, review_file f) of
           (Some (bname, bc), Some (uname, uc), Some (rname, rc)) \<Rightarrow>
             (let r1 = call_loader (verbose_loading bname False verbose) load_business_json
                         (business_records bc) r0;
                  r2 = call_loader (verbose_loading uname False verbose) load_users_json
                         (user_records uc) r1;
                  r3 = call_loader (verbose_loading [] True verbose) connect_users
                         (user_records uc) r2;
                  r4 = call_loader (verbose_loading rname False verbose) load_review_json
                         (review_records rc) r3
              in (optional_loaders verbose include_photos f r4, None))
         | _ \<Rightarrow> (r0\<lparr>printed := [failed_message]\<rparr>, Some (- 1)))"

section \<open>Definitions used in the statements\<close>

text \<open>Calling a resolver twice with the same natural key: the two ids it returns.\<close>

definition resolve_twice ::
  "(database \<Rightarrow> string \<Rightarrow> error + (database \<times> sqlval)) \<Rightarrow> database \<Rightarrow> string
     \<Rightarrow> error + (database \<times> sqlval \<times> sqlval)" where
  "resolve_twice resolver db id_str =
     (case resolver db id_str of
        Inl e \<Rightarrow> Inl e
      | Inr (db1, first_id) \<Rightarrow>
          (case resolver db1 id_str of
             Inl e \<Rightarrow> Inl e
           | Inr (db2, second_id) \<Rightarrow> Inr (db2, first_id, second_id)))"

text \<open>The stub row of a user: the id, the natural key, and NULL in every other column.\<close>

definition user_stub :: "int \<Rightarrow> string \<Rightarrow> row" where
  "user_stub i k =
     (''id'', IntV i) # (''user_id_str'', TextV k) #
       map (\<lambda>c. (c, Null)) (drop 2 (tbl_columns users_table))"

subsection \<open>Example data\<close>

definition example_business :: business_json where
  "example_business = \<lparr>bj_business_id = ''b1'', bj_name = ''Cafe'', bj_address = ''1 Main St'',
     bj_city = ''Reno'', bj_state = ''NV'', bj_postal_code = ''89501'', bj_latitude = 39.5,
     bj_longitude = - 119.8, bj_stars = 4.5, bj_review_count = 3, bj_is_open = 1,
     bj_categories = Some ''Food, Coffee'',
     bj_attributes = Some [(''WiFi'', JString ''u'free' ''), (''Parking'', JString ''{'lot': True}'')],
     bj_hours = Some [(''Monday'', ''0:0-0:0''), (''Tuesday'', ''9:0-17:0'')]\<rparr>"

definition example_user :: user_json where
  "example_user = \<lparr>uj_user_id = ''u1'', uj_name = ''Ann'', uj_review_count = 2,
     uj_yelping_since = ''2015-01-01 00:00:00'', uj_useful = 0, uj_funny = 0, uj_cool = 0,
     uj_fans = 0, uj_average_stars = 4, uj_compliment_hot = 0, uj_compliment_more = 0,
     uj_compliment_profile = 0, uj_compliment_cute = 0, uj_compliment_list = 0,
     uj_compliment_note = 0, uj_compliment_plain = 0, uj_compliment_cool = 0,
     uj_compliment_funny = 0, uj_compliment_writer = 0, uj_compliment_photos = 0,
     uj_elite = Some ''2019,20,20'', uj_friends = ''u2, u3, u4''\<rparr>"

definition example_review :: review_json where
  "example_review = \<lparr>rj_review_id = ''r1'', rj_user_id = ''u1'', rj_business_id = ''b1'',
     rj_stars = 5, rj_date = ''2020-01-01 10:00:00'', rj_text = ''Good'', rj_useful = 0,
     rj_funny = 0, rj_cool = 0\<rparr>"

definition example_tip :: tip_json where
  "example_tip = \<lparr>tj_business_id = ''b1'', tj_user_id = ''u1'', tj_text = ''Try the latte'',
     tj_date = ''2020-01-02 11:00:00'', tj_compliment_count = 0\<rparr>"

text \<open>The database after loading a file that holds the example business.\<close>

definition business_loaded :: database where
  "business_loaded = fst (load_business_json [example_business] empty_database)"


definition user_row :: "int \<Rightarrow> user_json \<Rightarrow> row" where
  "user_row i u =
     (''id'', IntV i) # take 8 (user_values u) @ (''friend_count'', Null) # drop 8 (user_values u)"








definition store :: "string \<times> string \<Rightarrow> (string \<times> string) list \<Rightarrow> (string \<times> string) list" where
  "store e attrs = dict_set attrs (fst e) (snd e)"

text \<open>The example of the docstring of \<open>flatten_dict\<close>, whose values are not strings.\<close>

definition docstring_input :: "(string \<times> json) list" where
  "docstring_input =
     [(''entry1'', JNumber 1),
      (''entry2'', JObject [(''sub_entry1'', JString ''second''),
                           (''sub_entry2'', JString ''third'')])]"

text \<open>
  What the constraints of the schema keep true of the users and the friends table: every row
  has the columns of its table, a user row has an id, and no friend pair is stored twice.
\<close>

definition users_ok :: "row list \<Rightarrow> bool" where
  "users_ok rows = list_all (\<lambda>r. map fst r = tbl_columns users_table \<and> col r ''id'' \<noteq> Null) rows"

definition friends_ok :: "row list \<Rightarrow> bool" where
  "friends_ok rows =
     (list_all (\<lambda>r. map fst r = tbl_columns friends_table) rows \<and> distinct rows)"

definition two_users_loaded :: database where
  "two_users_loaded =
     fst (load_users_json [example_user, example_user\<lparr>uj_user_id := ''u3'', uj_friends := ''u1''\<rparr>]
            empty_database)"

text \<open>The junction row of a user and a friend, and the ids the listed keys resolve to.\<close>

definition friend_pair :: "sqlval \<Rightarrow> sqlval \<Rightarrow> row" where
  "friend_pair uid friend = [(''user1_id'', uid), (''user2_id'', friend)]"

definition resolved_friends :: "database \<Rightarrow> user_json \<Rightarrow> sqlval list" where
  "resolved_friends db u =
     map (\<lambda>f. col f ''id'')
       (select_in (users db) ''user_id_str'' (map strip (str_split (uj_friends u) '', '')))"

text \<open>The junction rows of one user.\<close>

definition friends_of :: "sqlval \<Rightarrow> row list \<Rightarrow> row list" where
  "friends_of uid rows = filter (\<lambda>row. col row ''user1_id'' = uid) rows"

text \<open>Inserting a friend pair with \<open>on_conflict_do_nothing\<close>.\<close>

definition add_new :: "row \<Rightarrow> row list \<Rightarrow> row list" where
  "add_new r rows = (if r \<in> set rows then rows else rows @ [r])"

text \<open>
  The naming convention of the specification: a file of a kind is present in the folder when
  an entry with the suffix \<open>.json\<close> has the kind's word in its name.
\<close>

definition present :: "string \<Rightarrow> folder \<Rightarrow> bool" where
  "present kind dir =
     list_ex (\<lambda>path. path_suffix (fst path) = ''.json'' \<and> contains kind (fst path)) dir"

definition example_photo :: photo_json where
  "example_photo = \<lparr>pj_photo_id = ''p1'', pj_business_id = ''b1'', pj_caption = ''Latte art'',
     pj_label = ''drink''\<rparr>"

text \<open>A folder with a business, a tip and a photo file, and no user or review file.\<close>

definition business_only :: folder where
  "business_only =
     [(''yelp_academic_dataset_business.json'', BusinessRecords [example_business]),
      (''yelp_academic_dataset_tip.json'', TipRecords [example_tip]),
      (''photos.json'', PhotoRecords [example_photo]),
      (''user_agreement.pdf'', UserRecords [])]"

section \<open>Facts about the store\<close>

lemma fold_max_ge: "a \<le> fold max xs (a::int)"
  by (induction xs arbitrary: a) (auto intro: order_trans[OF max.cobounded2])

lemma fold_max_mem: "x \<in> set xs \<Longrightarrow> x \<le> fold max xs (a::int)"
proof (induction xs arbitrary: a)
  case Nil
  then show ?case by simp
next
  case (Cons y ys)
  show ?case
  proof (cases "x = y")
    case True
    have "max y a \<le> fold max ys (max y a)" by (rule fold_max_ge)
    then show ?thesis using True by simp
  next
    case False
    then show ?thesis using Cons by simp
  qed
qed

text \<open>The rowid SQLite assigns is the id of no stored row.\<close>

lemma next_rowid_fresh: "r \<in> set rows \<Longrightarrow> col r c \<noteq> IntV (next_rowid c rows)"
proof
  assume r: "r \<in> set rows" and eq: "col r c = IntV (next_rowid c rows)"
  have "rowid_of c r \<le> fold max (map (rowid_of c) rows) 0"
    using r by (intro fold_max_mem) simp
  moreover have "rowid_of c r = next_rowid c rows" using eq by (simp add: rowid_of_def)
  ultimately show False by (simp add: next_rowid_def)
qed

subsection \<open>The user resolver\<close>

lemma assign_user_stub:
  "assign_rowid users_table rows (complete_row users_table [(''user_id_str'', TextV k)])
     = user_stub (next_rowid ''id'' rows) k"
  by (simp add: assign_rowid_def complete_row_def users_table_def col_def user_stub_def)

lemma user_stub_no_conflict:
  assumes "select_eq rows ''user_id_str'' k = []"
  shows "\<not> conflicts users_table rows (user_stub (next_rowid ''id'' rows) k)"
proof -
  have a: "\<And>r. r \<in> set rows \<Longrightarrow> col r ''user_id_str'' \<noteq> TextV k"
    using assms by (auto simp: select_eq_def filter_empty_conv)
  have b: "\<And>r. r \<in> set rows \<Longrightarrow> col r ''id'' \<noteq> IntV (next_rowid ''id'' rows)"
    by (rule next_rowid_fresh)
  show ?thesis
    using a b
    by (auto simp: conflicts_def key_sets_def users_table_def same_key_def list_ex_iff
        user_stub_def col_def)
qed

lemma get_add_user_id_absent:
  assumes "select_eq (users db) ''user_id_str'' k = []"
  shows "get_add_user_id db k =
     Inr (db\<lparr>users := users db @ [user_stub (next_rowid ''id'' (users db)) k]\<rparr>,
          IntV (next_rowid ''id'' (users db)))"
proof -
  have u: "unconsumed users_table [(''user_id_str'', TextV k)] = []"
    by (simp add: unconsumed_def users_table_def)
  have c: "col (user_stub (next_rowid ''id'' (users db)) k) ''id''
             = IntV (next_rowid ''id'' (users db))"
    by (simp add: user_stub_def col_def)
  have t: "tbl_rowid users_table = Some ''id''" by (simp add: users_table_def)
  show ?thesis
    using assms user_stub_no_conflict[OF assms]
    by (simp add: get_add_user_id_def insert_row_def u assign_user_stub c t)
qed

lemma get_add_user_id_present:
  assumes "select_eq (users db) ''user_id_str'' k = r # rs"
  shows "get_add_user_id db k = Inr (db, col r ''id'')"
  using assms by (simp add: get_add_user_id_def)

text \<open>The user resolver never raises, and it touches the users table only.\<close>

lemma get_add_user_id_returns:
  "\<exists>rows uid. get_add_user_id db k = Inr (db\<lparr>users := rows\<rparr>, uid)"
proof (cases "select_eq (users db) ''user_id_str'' k")
  case Nil
  then show ?thesis using get_add_user_id_absent by blast
next
  case (Cons r rs)
  have "get_add_user_id db k = Inr (db\<lparr>users := users db\<rparr>, col r ''id'')"
    using get_add_user_id_present[OF Cons] by simp
  then show ?thesis by blast
qed

text \<open>
  A second call with the same key finds the row and returns the id of the first call,
  leaving the database as the first call left it.
\<close>

lemma get_add_user_id_again:
  assumes "get_add_user_id db k = Inr (db1, uid)"
  shows "get_add_user_id db1 k = Inr (db1, uid)"
proof (cases "select_eq (users db) ''user_id_str'' k")
  case Nil
  let ?stub = "user_stub (next_rowid ''id'' (users db)) k"
  have db1: "db1 = db\<lparr>users := users db @ [?stub]\<rparr>" and uid: "uid = IntV (next_rowid ''id'' (users db))"
    using assms get_add_user_id_absent[OF Nil] by simp_all
  have "select_eq (users db1) ''user_id_str'' k = [?stub]"
    using Nil by (simp add: db1 select_eq_def user_stub_def col_def)
  then have "get_add_user_id db1 k = Inr (db1, col ?stub ''id'')"
    by (rule get_add_user_id_present)
  then show ?thesis by (simp add: uid user_stub_def col_def)
next
  case (Cons r rs)
  then show ?thesis using assms get_add_user_id_present[OF Cons] by simp
qed

subsection \<open>The business resolver\<close>

lemma get_add_business_id_absent:
  assumes "select_eq (business db) ''business_id_str'' k = []"
  shows "get_add_business_id db k = Inl CompileError"
  using assms
  by (simp add: get_add_business_id_def insert_row_def unconsumed_def business_table_def)

lemma get_add_business_id_present:
  assumes "select_eq (business db) ''business_id_str'' k = r # rs"
  shows "get_add_business_id db k = Inr (db, col r ''id'')"
  using assms by (simp add: get_add_business_id_def)

subsection \<open>The rows of the Business and User loaders\<close>










subsection \<open>Elite years\<close>








lemma re_sub_no_match: "\<not> contains p s \<Longrightarrow> re_sub p r s = s"
proof (induction s)
  case Nil
  then show ?case by (subst re_sub.simps) simp
next
  case (Cons c cs)
  then have "\<not> startswith p (c # cs)" "re_sub p r cs = cs" by simp_all
  then show ?case by (subst re_sub.simps) simp
qed

subsection \<open>The Attribute Flattener\<close>

lemma store_pair [simp]: "store (k, v) attrs = dict_set attrs k v"
  by (simp add: store_def)










text \<open>Whatever the literal parser decodes, \<open>eval\<close> decodes to the same value.\<close>

lemma literal_is_eval:
  "literal e = Inr v \<Longrightarrow> eval_expr e = Inr v"
  "literals es = Inr vs \<Longrightarrow> eval_exprs es = Inr vs"
  "literal_pairs kvs = Inr ps \<Longrightarrow> eval_pairs kvs = Inr ps"
proof (induction e and es and kvs arbitrary: v and vs and ps
    rule: literal_literals_literal_pairs.induct)
  case (4 e)
  then show ?case by (auto simp: py_neg_def as_int_def split: expr.splits pyval.splits)
qed (auto split: sum.splits)

lemma flatten_dict_docstring_example: "flatten_dict (Some docstring_input) = Inl TypeError"
  by (simp add: flatten_dict_def docstring_input_def eval_value_def)

subsection \<open>The Friend-Graph Linker\<close>

lemma col_set_col_other: "c' \<noteq> c \<Longrightarrow> col (set_col c v r) c' = col r c'"
  by (induction r) (auto simp: col_def set_col_def)

lemma col_set_col_same: "c \<in> fst ` set r \<Longrightarrow> col (set_col c v r) c = v"
  by (induction r) (auto simp: col_def set_col_def)

lemma update_friend_count_key [simp]:
  "col (if col r ''id'' = uid then set_col ''friend_count'' v r else r) ''user_id_str''
     = col r ''user_id_str''"
  by (simp add: col_set_col_other)

lemma update_friend_count_id [simp]:
  "col (if col r ''id'' = uid then set_col ''friend_count'' v r else r) ''id'' = col r ''id''"
  by (simp add: col_set_col_other)

lemma select_in_updated:
  "map (\<lambda>f. col f ''id'') (select_in (update_friend_count rows uid n) ''user_id_str'' ks)
     = map (\<lambda>f. col f ''id'') (select_in rows ''user_id_str'' ks)"
  by (induction rows) (simp_all add: select_in_def update_friend_count_def)

lemma keys_updated:
  "map (\<lambda>r. col r ''user_id_str'') (update_friend_count rows uid n)
     = map (\<lambda>r. col r ''user_id_str'') rows"
  by (induction rows) (simp_all add: update_friend_count_def)

lemma select_eq_updated:
  "select_eq (update_friend_count rows uid n) ''user_id_str'' k
     = update_friend_count (select_eq rows ''user_id_str'' k) uid n"
  by (induction rows) (simp_all add: select_eq_def update_friend_count_def)

lemma friend_row_shape:
  "map fst r = tbl_columns friends_table \<Longrightarrow> r = friend_pair (col r ''user1_id'') (col r ''user2_id'')"
  by (cases r rule: list.exhaust; cases "tl r" rule: list.exhaust)
     (auto simp: friends_table_def friend_pair_def col_def)

lemma friend_pair_conflicts:
  assumes "list_all (\<lambda>r. map fst r = tbl_columns friends_table) rows" "uid \<noteq> Null" "f \<noteq> Null"
  shows "conflicts friends_table rows (friend_pair uid f) \<longleftrightarrow> friend_pair uid f \<in> set rows"
proof
  assume "conflicts friends_table rows (friend_pair uid f)"
  then obtain r where r: "r \<in> set rows" "col r ''user1_id'' = uid" "col r ''user2_id'' = f"
    by (auto simp: conflicts_def key_sets_def friends_table_def same_key_def list_ex_iff
        friend_pair_def col_def)
  have "map fst r = tbl_columns friends_table" using assms(1) r(1) by (simp add: list_all_iff)
  then have "r = friend_pair uid f" using friend_row_shape[of r] r by simp
  then show "friend_pair uid f \<in> set rows" using r(1) by simp
next
  assume "friend_pair uid f \<in> set rows"
  then show "conflicts friends_table rows (friend_pair uid f)"
    using assms(2,3)
    by (auto simp: conflicts_def key_sets_def friends_table_def same_key_def list_ex_iff
        friend_pair_def col_def intro!: bexI[of _ "friend_pair uid f"])
qed

lemma add_new_shape:
  "list_all (\<lambda>r. map fst r = tbl_columns friends_table) rows \<Longrightarrow>
   list_all (\<lambda>r. map fst r = tbl_columns friends_table) (add_new (friend_pair uid f) rows)"
  by (simp add: add_new_def friend_pair_def friends_table_def)

lemma insert_each_friends:
  assumes "list_all (\<lambda>r. map fst r = tbl_columns friends_table) rows" "uid \<noteq> Null"
    "list_all (\<lambda>f. f \<noteq> Null) fs"
  shows "insert_each friends_table True rows
           (map (\<lambda>friend. [(''user1_id'', uid), (''user2_id'', friend)]) fs)
         = Inr (fold add_new (map (friend_pair uid) fs) rows)"
  using assms(1,3)
proof (induction fs arbitrary: rows)
  case Nil
  then show ?case by simp
next
  case (Cons f fs)
  have u: "unconsumed friends_table [(''user1_id'', uid), (''user2_id'', f)] = []"
    by (simp add: unconsumed_def friends_table_def)
  have a: "assign_rowid friends_table rows
             (complete_row friends_table [(''user1_id'', uid), (''user2_id'', f)])
           = friend_pair uid f"
    by (simp add: assign_rowid_def complete_row_def friends_table_def col_def friend_pair_def)
  have f: "f \<noteq> Null" and fs: "list_all (\<lambda>f. f \<noteq> Null) fs" using Cons.prems(2) by simp_all
  have c: "conflicts friends_table rows (friend_pair uid f) \<longleftrightarrow> friend_pair uid f \<in> set rows"
    using Cons.prems(1) assms(2) f by (rule friend_pair_conflicts)
  have shape: "list_all (\<lambda>r. map fst r = tbl_columns friends_table) (add_new (friend_pair uid f) rows)"
    using Cons.prems(1) by (rule add_new_shape)
  have IH: "insert_each friends_table True (add_new (friend_pair uid f) rows)
           (map (\<lambda>friend. [(''user1_id'', uid), (''user2_id'', friend)]) fs)
         = Inr (fold add_new (map (friend_pair uid) fs) (add_new (friend_pair uid f) rows))"
    using shape fs by (rule Cons.IH)
  show ?case
  proof (cases "friend_pair uid f \<in> set rows")
    case True
    then have "add_new (friend_pair uid f) rows = rows" by (simp add: add_new_def)
    then show ?thesis using IH True by (simp add: u a c)
  next
    case False
    then have "add_new (friend_pair uid f) rows = rows @ [friend_pair uid f]"
      by (simp add: add_new_def)
    then show ?thesis using IH False by (simp add: u a c)
  qed
qed

lemma set_fold_add_new: "set (fold add_new rs rows) = set rows \<union> set rs"
  by (induction rs arbitrary: rows) (auto simp: add_new_def)

lemma distinct_fold_add_new: "distinct rows \<Longrightarrow> distinct (fold add_new rs rows)"
  by (induction rs arbitrary: rows) (auto simp: add_new_def)


lemma insert_friend_pairs:
  assumes "friends_ok rows" "uid \<noteq> Null" "list_all (\<lambda>f. f \<noteq> Null) fs" "fs \<noteq> []"
  shows "\<exists>rows'. insert_many friends_table True rows
           (map (\<lambda>friend. [(''user1_id'', uid), (''user2_id'', friend)]) fs) = Inr rows' \<and>
         set rows' = set rows \<union> friend_pair uid ` set fs \<and> friends_ok rows'"
proof -
  have shape: "list_all (\<lambda>r. map fst r = tbl_columns friends_table) rows"
    and d: "distinct rows"
    using assms(1) by (simp_all add: friends_ok_def)
  let ?rows' = "fold add_new (map (friend_pair uid) fs) rows"
  have ins: "insert_many friends_table True rows
           (map (\<lambda>friend. [(''user1_id'', uid), (''user2_id'', friend)]) fs) = Inr ?rows'"
    using insert_each_friends[OF shape assms(2,3)] assms(4) by (simp add: insert_many_def)
  have s: "set ?rows' = set rows \<union> friend_pair uid ` set fs"
    by (simp add: set_fold_add_new)
  have "list_all (\<lambda>r. map fst r = tbl_columns friends_table) ?rows'"
    using shape s by (auto simp: list_all_iff friend_pair_def friends_table_def)
  then have ok: "friends_ok ?rows'"
    using d by (simp add: friends_ok_def distinct_fold_add_new)
  show ?thesis using ins s ok by blast
qed

text \<open>
  A user without junction rows gets as many as there are resolved friends.
\<close>

lemma new_pairs_count:
  assumes "distinct rows'" and "set rows' = set rows \<union> friend_pair uid ` S"
    and "friends_of uid rows = []"
  shows "length (friends_of uid rows') = card S"
proof -
  have old: "\<And>x. x \<in> set rows \<Longrightarrow> col x ''user1_id'' \<noteq> uid"
    using assms(3) by (auto simp: friends_of_def filter_empty_conv)
  have new: "\<And>f. col (friend_pair uid f) ''user1_id'' = uid"
    by (simp add: friend_pair_def col_def)
  have "set (friends_of uid rows') = friend_pair uid ` S"
    using old new by (auto simp: friends_of_def assms(2))
  moreover have "distinct (friends_of uid rows')"
    using assms(1) by (simp add: friends_of_def)
  ultimately have "length (friends_of uid rows') = card (friend_pair uid ` S)"
    using distinct_card by fastforce
  also have "\<dots> = card S"
    by (rule card_image) (simp add: inj_on_def friend_pair_def)
  finally show ?thesis .
qed

lemma resolved_not_Null:
  "users_ok (users db) \<Longrightarrow> list_all (\<lambda>f. f \<noteq> Null) (resolved_friends db u)"
  by (auto simp: users_ok_def resolved_friends_def select_in_def list_all_iff)


subsection \<open>File discovery\<close>

lemma classify_business:
  "business_file (classify f path) \<noteq> None \<Longrightarrow>
     business_file f \<noteq> None \<or>
     (path_suffix (fst path) = ''.json'' \<and> contains ''business'' (fst path))"
  by (auto simp: classify_def split: if_splits)

lemma classify_user:
  "user_file (classify f path) \<noteq> None \<Longrightarrow>
     user_file f \<noteq> None \<or> (path_suffix (fst path) = ''.json'' \<and> contains ''user'' (fst path))"
  by (auto simp: classify_def split: if_splits)

lemma classify_review:
  "review_file (classify f path) \<noteq> None \<Longrightarrow>
     review_file f \<noteq> None \<or>
     (path_suffix (fst path) = ''.json'' \<and> contains ''review'' (fst path))"
  by (auto simp: classify_def split: if_splits)

text \<open>A flag that the scan sets comes from an entry that follows the naming convention.\<close>

lemma found_business:
  "business_file (foldl classify f dir) \<noteq> None \<Longrightarrow>
     business_file f \<noteq> None \<or> present ''business'' dir"
proof (induction dir arbitrary: f)
  case Nil
  then show ?case by simp
next
  case (Cons path dir)
  from Cons.prems have "business_file (foldl classify (classify f path) dir) \<noteq> None" by simp
  from Cons.IH[OF this] show ?case
    using classify_business[of f path] by (auto simp: present_def)
qed

lemma found_user:
  "user_file (foldl classify f dir) \<noteq> None \<Longrightarrow> user_file f \<noteq> None \<or> present ''user'' dir"
proof (induction dir arbitrary: f)
  case Nil
  then show ?case by simp
next
  case (Cons path dir)
  from Cons.prems have "user_file (foldl classify (classify f path) dir) \<noteq> None" by simp
  from Cons.IH[OF this] show ?case
    using classify_user[of f path] by (auto simp: present_def)
qed

lemma found_review:
  "review_file (foldl classify f dir) \<noteq> None \<Longrightarrow>
     review_file f \<noteq> None \<or> present ''review'' dir"
proof (induction dir arbitrary: f)
  case Nil
  then show ?case by simp
next
  case (Cons path dir)
  from Cons.prems have "review_file (foldl classify (classify f path) dir) \<noteq> None" by simp
  from Cons.IH[OF this] show ?case
    using classify_review[of f path] by (auto simp: present_def)
qed

section \<open>The claims\<close>

text \<open>
  C1.  The claim: for every business natural key that is not yet in the business table, the
  Key Resolver, as the Review, Tip, Checkin and Photo loaders use it, inserts one business row
  holding only that key and returns the new surrogate id.

  The code does not.  The insert of \<open>_get_add_business_id\<close> names the column \<open>user_id_str\<close>,
  which the business table does not have, so for every absent key the resolver raises
  \<open>CompileError\<close>: no row is inserted and no id is returned.  A review file whose first record
  refers to an absent business makes \<open>_load_review_json\<close> raise, and its transaction leaves
  the database as it was.
\<close>

theorem get_add_business_id_raises_for_absent_key:
  assumes "select_eq (business db) ''business_id_str'' (rj_business_id r) = []"
  shows "get_add_business_id db (rj_business_id r) = Inl CompileError \<and>
         load_review_json (r # rs) db = (db, Some CompileError)"
proof -
  have first: "get_add_business_id db (rj_business_id r) = Inl CompileError"
    using assms by (rule get_add_business_id_absent)
  obtain rows uid where u: "get_add_user_id db (rj_user_id r) = Inr (db\<lparr>users := rows\<rparr>, uid)"
    using get_add_user_id_returns by blast
  have "get_add_business_id (db\<lparr>users := rows\<rparr>) (rj_business_id r) = Inl CompileError"
    using assms by (intro get_add_business_id_absent) simp
  then have "load_review db r = Inl CompileError"
    by (simp add: load_review_def u)
  then have "load_review_json (r # rs) db = (db, Some CompileError)"
    by (simp add: load_review_json_def transaction_def)
  with first show ?thesis by simp
qed

theorem get_add_business_id_raises_for_absent_key_witness:
  "select_eq (business empty_database) ''business_id_str'' (rj_business_id example_review) = [] \<and>
   get_add_business_id empty_database (rj_business_id example_review) = Inl CompileError \<and>
   load_review_json [example_review] empty_database = (empty_database, Some CompileError)"
proof -
  have h: "select_eq (business empty_database) ''business_id_str''
             (rj_business_id example_review) = []"
    by (simp add: empty_database_def select_eq_def)
  show ?thesis
    using h get_add_business_id_raises_for_absent_key[OF h, of "[]"] by simp
qed

text \<open>
  C2.  The claim: loading the same Business, User, Review, Tip or Photo file twice leaves as
  many rows in its table as loading it once, for Tip records in particular.

  The tips table has no natural key and no uniqueness constraint, so the
  \<open>on_conflict_do_nothing\<close> of \<open>_load_tip_json\<close> never finds a conflict: on a database that
  holds the example business, loading the file with the example tip once leaves one tip row,
  and loading it a second time leaves two.
\<close>

theorem load_tip_json_twice_duplicates:
  "length (tips (fst (load_tip_json [example_tip] business_loaded))) = 1 \<and>
   length (tips (fst (load_tip_json [example_tip]
                        (fst (load_tip_json [example_tip] business_loaded))))) = 2"
  by code_simp

text \<open>
  C3.  The claim: the Attribute Flattener decodes each value string with a parser that
  accepts literal syntax only, so a non-literal expression such as \<open>1+1\<close> or a call is not
  reduced to its computed result.

  \<open>flatten_dict\<close> calls \<open>eval\<close>: the value \<open>1+1\<close> is stored as \<open>2\<close>, where a literal parser
  raises \<open>ValueError\<close>.
\<close>

theorem flatten_dict_evaluates_expression:
  "flatten_dict (Some [(''a'', JString ''1+1'')]) = Inr (Some [(''a'', ''2'')]) \<and>
   literal_eval ''1+1'' = Inl ValueError"
  by code_simp

text \<open>
  C3, amended.  The Attribute Flattener decodes each value string with Python's general
  expression evaluator: on every string that the literal parser decodes, \<open>eval\<close> gives the same
  value, and a non-literal expression is evaluated, so that \<open>1+1\<close> and \<open>len('ab')\<close> are both
  stored as their computed result \<open>2\<close>.
\<close>

theorem flatten_dict_decodes_with_eval:
  "eval_value (JString s) = py_eval s \<and>
   (literal_eval s = Inr v \<longrightarrow> py_eval s = Inr v) \<and>
   py_eval ''1+1'' = Inr (PInt 2) \<and>
   py_eval ''len('ab')'' = Inr (PInt 2) \<and>
   flatten_dict (Some [(''a'', JString ''1+1''), (''b'', JString ''len('ab')'')])
     = Inr (Some [(''a'', ''2''), (''b'', ''2'')])"
proof -
  have a: "eval_value (JString s) = py_eval s" by (simp add: eval_value_def)
  have b: "literal_eval s = Inr v \<longrightarrow> py_eval s = Inr v"
    by (auto simp: literal_eval_def py_eval_def literal_is_eval(1) split: option.splits)
  have c: "py_eval ''1+1'' = Inr (PInt 2)" by code_simp
  have d: "py_eval ''len('ab')'' = Inr (PInt 2)" by code_simp
  have e: "flatten_dict (Some [(''a'', JString ''1+1''), (''b'', JString ''len('ab')'')])
     = Inr (Some [(''a'', ''2''), (''b'', ''2'')])"
    by code_simp
  from a b c d e show ?thesis by (intro conjI)
qed

theorem flatten_dict_decodes_with_eval_witness:
  "literal_eval ''{'x': 'y'}'' = Inr (PDict [(PStr ''x'', PStr ''y'')]) \<and>
   py_eval ''{'x': 'y'}'' = Inr (PDict [(PStr ''x'', PStr ''y'')]) \<and>
   eval_value (JString ''{'x': 'y'}'') = Inr (PDict [(PStr ''x'', PStr ''y'')])"
proof -
  have l: "literal_eval ''{'x': 'y'}'' = Inr (PDict [(PStr ''x'', PStr ''y'')])" by code_simp
  show ?thesis
    using l flatten_dict_decodes_with_eval[of "''{'x': 'y'}''" "PDict [(PStr ''x'', PStr ''y'')]"]
    by simp
qed

text \<open>
  C4.  The claim: for Business and for User, calling the Key Resolver twice with the same
  natural key returns the same surrogate id both times and inserts exactly one row.

  The user resolver does so: the second call returns the id of the first and leaves the
  database as the first call left it, and the first call adds the stub row when the key was
  absent and nothing otherwise.  The business resolver raises \<open>CompileError\<close> on the first
  call for every absent key (the defect of C1).
\<close>

theorem key_resolver_called_twice:
  assumes "select_eq (business db) ''business_id_str'' k = []"
  shows "(\<exists>db1 uid. get_add_user_id db k = Inr (db1, uid) \<and>
       resolve_twice get_add_user_id db k = Inr (db1, uid, uid) \<and>
       users db1 = users db @
         (if select_eq (users db) ''user_id_str'' k = []
          then [user_stub (next_rowid ''id'' (users db)) k] else [])) \<and>
   resolve_twice get_add_business_id db k = Inl CompileError"
proof -
  obtain rows uid where u: "get_add_user_id db k = Inr (db\<lparr>users := rows\<rparr>, uid)"
    using get_add_user_id_returns by blast
  have again: "get_add_user_id (db\<lparr>users := rows\<rparr>) k = Inr (db\<lparr>users := rows\<rparr>, uid)"
    using u by (rule get_add_user_id_again)
  have twice: "resolve_twice get_add_user_id db k = Inr (db\<lparr>users := rows\<rparr>, uid, uid)"
    by (simp add: resolve_twice_def u again)
  have rows: "rows = users db @
      (if select_eq (users db) ''user_id_str'' k = []
       then [user_stub (next_rowid ''id'' (users db)) k] else [])"
  proof (cases "select_eq (users db) ''user_id_str'' k")
    case Nil
    have "db\<lparr>users := rows\<rparr> = db\<lparr>users := users db @ [user_stub (next_rowid ''id'' (users db)) k]\<rparr>"
      using u get_add_user_id_absent[OF Nil] by simp
    then have "users (db\<lparr>users := rows\<rparr>)
        = users (db\<lparr>users := users db @ [user_stub (next_rowid ''id'' (users db)) k]\<rparr>)"
      by (rule arg_cong)
    then show ?thesis using Nil by simp
  next
    case (Cons r rs)
    have "db\<lparr>users := rows\<rparr> = db" using u get_add_user_id_present[OF Cons] by simp
    then have "users (db\<lparr>users := rows\<rparr>) = users db" by (rule arg_cong)
    then show ?thesis using Cons by simp
  qed
  have business: "resolve_twice get_add_business_id db k = Inl CompileError"
    by (simp add: resolve_twice_def get_add_business_id_absent[OF assms])
  show ?thesis
    using u twice rows business by auto
qed

theorem key_resolver_called_twice_witness:
  "select_eq (business empty_database) ''business_id_str'' ''b1'' = [] \<and>
   (\<exists>db1 uid. get_add_user_id empty_database ''b1'' = Inr (db1, uid) \<and>
       resolve_twice get_add_user_id empty_database ''b1'' = Inr (db1, uid, uid) \<and>
       users db1 = [user_stub 1 ''b1'']) \<and>
   resolve_twice get_add_business_id empty_database ''b1'' = Inl CompileError"
proof -
  have h: "select_eq (business empty_database) ''business_id_str'' ''b1'' = []"
    by (simp add: empty_database_def select_eq_def)
  have n: "next_rowid ''id'' [] = 1"
    by (simp add: next_rowid_def)
  have e: "select_eq [] ''user_id_str'' ''b1'' = []"
    by (simp add: select_eq_def)
  have u: "users empty_database = []" by (simp add: empty_database_def)
  show ?thesis
    using h key_resolver_called_twice[OF h] by (simp add: n e u)
qed




text \<open>
  C6.  For every user record that the Friend-Graph Linker processes, \<open>friend_count\<close> becomes
  the number of keys listed in the \<open>friends\<close> field, the length of its split on \<open>', '\<close>,
  however many of them resolve; one junction row is stored for each listed key that resolves
  to a user row; and no user row is created for a key that does not resolve.

  The user's row is the one row with the record's key.  Afterwards that row holds the number
  of listed keys, the users table has the same natural keys in the same order, the friends
  table holds its old rows and the pairs of the user with each resolved friend, no pair
  twice, and no other table has changed.  A user who had no junction row has as many as
  there are distinct resolved friends.
\<close>

theorem connect_user_counts_listed_links_resolved:
  assumes "select_eq (users db) ''user_id_str'' (uj_user_id u) = [r]"
    and "users_ok (users db)" and "friends_ok (friends db)"
  shows "\<exists>db'. connect_user db u = Inr db' \<and>
           db'\<lparr>users := users db, friends := friends db\<rparr> = db \<and>
           (\<exists>r'. select_eq (users db') ''user_id_str'' (uj_user_id u) = [r'] \<and>
                 col r' ''friend_count'' = IntV (int (length (str_split (uj_friends u) '', '')))) \<and>
           map (\<lambda>row. col row ''user_id_str'') (users db')
             = map (\<lambda>row. col row ''user_id_str'') (users db) \<and>
           set (friends db')
             = set (friends db) \<union> friend_pair (col r ''id'') ` set (resolved_friends db u) \<and>
           friends_ok (friends db') \<and>
           (friends_of (col r ''id'') (friends db) = [] \<longrightarrow>
              length (friends_of (col r ''id'') (friends db'))
                = card (set (resolved_friends db u)))"
proof -
  let ?uid = "col r ''id''"
  let ?n = "int (length (str_split (uj_friends u) '', ''))"
  let ?users = "update_friend_count (users db) ?uid ?n"
  let ?db1 = "db\<lparr>users := ?users\<rparr>"
  have "r \<in> set (select_eq (users db) ''user_id_str'' (uj_user_id u))"
    by (simp add: assms(1))
  then have r_in: "r \<in> set (users db)" by (simp add: select_eq_def)
  then have r_ok: "map fst r = tbl_columns users_table" and uid: "?uid \<noteq> Null"
    using assms(2) by (auto simp: users_ok_def list_all_iff)
  have fc: "''friend_count'' \<in> fst ` set r"
  proof -
    have "''friend_count'' \<in> set (map fst r)" by (simp add: r_ok users_table_def)
    then show ?thesis by simp
  qed
  have sel: "select_eq ?users ''user_id_str'' (uj_user_id u)
               = [set_col ''friend_count'' (IntV ?n) r]"
  proof -
    have "select_eq ?users ''user_id_str'' (uj_user_id u) = update_friend_count [r] ?uid ?n"
      by (simp add: select_eq_updated assms(1))
    also have "\<dots> = [set_col ''friend_count'' (IntV ?n) r]"
      by (simp add: update_friend_count_def)
    finally show ?thesis .
  qed
  have count: "col (set_col ''friend_count'' (IntV ?n) r) ''friend_count'' = IntV ?n"
    using fc by (rule col_set_col_same)
  have ids: "map (\<lambda>f. col f ''id'')
               (select_in ?users ''user_id_str'' (map strip (str_split (uj_friends u) '', '')))
             = resolved_friends db u"
    by (simp add: select_in_updated resolved_friends_def)
  have none: "select_in ?users ''user_id_str'' (map strip (str_split (uj_friends u) '', '')) = []
               \<longleftrightarrow> resolved_friends db u = []"
    using ids by (metis map_is_Nil_conv)
  have nn: "list_all (\<lambda>f. f \<noteq> Null) (resolved_friends db u)"
    using assms(2) by (rule resolved_not_Null)
  show ?thesis
  proof (cases "resolved_friends db u = []")
    case True
    have "connect_user db u = Inr ?db1"
      using True
      by (simp add: connect_user_def assms(1) Let_def ids none del: map_map)
    then show ?thesis
      using sel count True assms(3) by (simp add: keys_updated)
  next
    case False
    obtain rows' where ins: "insert_many friends_table True (friends db)
           (map (\<lambda>friend. [(''user1_id'', ?uid), (''user2_id'', friend)]) (resolved_friends db u))
             = Inr rows'"
      and s: "set rows' = set (friends db) \<union> friend_pair ?uid ` set (resolved_friends db u)"
      and ok: "friends_ok rows'"
      using insert_friend_pairs[OF assms(3) uid nn False] by blast
    have "connect_user db u = Inr (?db1\<lparr>friends := rows'\<rparr>)"
      using False ins
      by (simp add: connect_user_def assms(1) Let_def ids none del: map_map)
    moreover have "friends_of ?uid (friends db) = [] \<longrightarrow>
        length (friends_of ?uid rows') = card (set (resolved_friends db u))"
      using ok s by (auto simp: friends_ok_def intro: new_pairs_count)
    ultimately show ?thesis
      using sel count s ok by (simp add: keys_updated)
  qed
qed


theorem connect_user_counts_listed_links_resolved_witness:
  "select_eq (users two_users_loaded) ''user_id_str'' (uj_user_id example_user)
     = [user_row 1 example_user] \<and>
   users_ok (users two_users_loaded) \<and> friends_ok (friends two_users_loaded) \<and>
   str_split (uj_friends example_user) '', '' = [''u2'', ''u3'', ''u4''] \<and>
   resolved_friends two_users_loaded example_user = [IntV 2] \<and>
   (\<exists>db'. connect_user two_users_loaded example_user = Inr db' \<and>
      (\<exists>r'. select_eq (users db') ''user_id_str'' ''u1'' = [r'] \<and>
            col r' ''friend_count'' = IntV 3) \<and>
      map (\<lambda>row. col row ''user_id_str'') (users db') = [TextV ''u1'', TextV ''u3''] \<and>
      set (friends db') = {friend_pair (IntV 1) (IntV 2)} \<and>
      friends_ok (friends db') \<and>
      length (friends_of (IntV 1) (friends db')) = 1)"
proof -
  have h1: "select_eq (users two_users_loaded) ''user_id_str'' (uj_user_id example_user)
     = [user_row 1 example_user]"
    by code_simp
  have h2: "users_ok (users two_users_loaded)" by code_simp
  have h3: "friends_ok (friends two_users_loaded)" by code_simp
  have listed: "str_split (uj_friends example_user) '', '' = [''u2'', ''u3'', ''u4'']"
    by code_simp
  have res: "resolved_friends two_users_loaded example_user = [IntV 2]" by code_simp
  have keys: "map (\<lambda>row. col row ''user_id_str'') (users two_users_loaded)
                = [TextV ''u1'', TextV ''u3'']"
    by code_simp
  have old: "friends two_users_loaded = []" by code_simp
  have uid: "col (user_row 1 example_user) ''id'' = IntV 1" by code_simp
  have key: "uj_user_id example_user = ''u1''" by (simp add: example_user_def)
  from connect_user_counts_listed_links_resolved[OF h1 h2 h3]
  obtain db' where "connect_user two_users_loaded example_user = Inr db' \<and>
           db'\<lparr>users := users two_users_loaded, friends := friends two_users_loaded\<rparr>
             = two_users_loaded \<and>
           (\<exists>r'. select_eq (users db') ''user_id_str'' (uj_user_id example_user) = [r'] \<and>
                 col r' ''friend_count''
                   = IntV (int (length (str_split (uj_friends example_user) '', '')))) \<and>
           map (\<lambda>row. col row ''user_id_str'') (users db')
             = map (\<lambda>row. col row ''user_id_str'') (users two_users_loaded) \<and>
           set (friends db') = set (friends two_users_loaded) \<union>
             friend_pair (col (user_row 1 example_user) ''id'')
               ` set (resolved_friends two_users_loaded example_user) \<and>
           friends_ok (friends db') \<and>
           (friends_of (col (user_row 1 example_user) ''id'') (friends two_users_loaded) = [] \<longrightarrow>
              length (friends_of (col (user_row 1 example_user) ''id'') (friends db'))
                = card (set (resolved_friends two_users_loaded example_user)))" ..
  then have c: "connect_user two_users_loaded example_user = Inr db'"
    and n: "\<exists>r'. select_eq (users db') ''user_id_str'' (uj_user_id example_user) = [r'] \<and>
              col r' ''friend_count''
                = IntV (int (length (str_split (uj_friends example_user) '', '')))"
    and k: "map (\<lambda>row. col row ''user_id_str'') (users db')
              = map (\<lambda>row. col row ''user_id_str'') (users two_users_loaded)"
    and s: "set (friends db') = set (friends two_users_loaded) \<union>
              friend_pair (col (user_row 1 example_user) ''id'')
                ` set (resolved_friends two_users_loaded example_user)"
    and ok: "friends_ok (friends db')"
    and cnt: "friends_of (col (user_row 1 example_user) ''id'') (friends two_users_loaded) = [] \<longrightarrow>
              length (friends_of (col (user_row 1 example_user) ''id'') (friends db'))
                = card (set (resolved_friends two_users_loaded example_user))"
    by simp_all
  have cnt': "length (friends_of (IntV 1) (friends db')) = 1"
    using cnt by (simp add: old uid res friends_of_def)
  have n': "\<exists>r'. select_eq (users db') ''user_id_str'' ''u1'' = [r'] \<and>
              col r' ''friend_count'' = IntV 3"
    using n by (simp add: key listed)
  have k': "map (\<lambda>row. col row ''user_id_str'') (users db') = [TextV ''u1'', TextV ''u3'']"
    using k by (simp add: keys)
  have s': "set (friends db') = {friend_pair (IntV 1) (IntV 2)}"
    using s by (simp add: old uid res)
  have "\<exists>db'. connect_user two_users_loaded example_user = Inr db' \<and>
      (\<exists>r'. select_eq (users db') ''user_id_str'' ''u1'' = [r'] \<and>
            col r' ''friend_count'' = IntV 3) \<and>
      map (\<lambda>row. col row ''user_id_str'') (users db') = [TextV ''u1'', TextV ''u3''] \<and>
      set (friends db') = {friend_pair (IntV 1) (IntV 2)} \<and>
      friends_ok (friends db') \<and>
      length (friends_of (IntV 1) (friends db')) = 1"
    using c n' k' s' ok cnt' by (intro exI[of _ db'] conjI)
  with h1 h2 h3 listed res show ?thesis by (intro conjI)
qed

text \<open>
  C7.  If the Business, the User or the Review file is absent from the input folder, the run
  aborts before any write: \<open>create_full_database\<close> prints the failure message and returns
  \<open>-1\<close>, and the database is as it was; no loader runs, the Checkin, Tip and Photo loaders
  included, whether or not their files are there.
\<close>

theorem missing_mandatory_file_aborts:
  assumes "\<not> (present ''business'' dir \<and> present ''user'' dir \<and> present ''review'' dir)"
  shows "create_full_database verbose include_photos dir db =
           (\<lparr>run_db = db, printed = [failed_message], raised = None\<rparr>, Some (- 1))"
proof -
  have b: "business_file (discover dir) \<noteq> None \<Longrightarrow> present ''business'' dir"
    using found_business[of nothing_found dir] by (simp add: discover_def nothing_found_def)
  have u: "user_file (discover dir) \<noteq> None \<Longrightarrow> present ''user'' dir"
    using found_user[of nothing_found dir] by (simp add: discover_def nothing_found_def)
  have r: "review_file (discover dir) \<noteq> None \<Longrightarrow> present ''review'' dir"
    using found_review[of nothing_found dir] by (simp add: discover_def nothing_found_def)
  from assms b u r
  have "business_file (discover dir) = None \<or> user_file (discover dir) = None
          \<or> review_file (discover dir) = None"
    by blast
  then show ?thesis
    by (auto simp: create_full_database_def create_tables_if_not_exist_def Let_def
        split: option.splits)
qed

theorem missing_mandatory_file_aborts_witness:
  "present ''business'' business_only \<and> present ''tip'' business_only \<and>
   present ''photo'' business_only \<and>
   \<not> present ''user'' business_only \<and> \<not> present ''review'' business_only \<and>
   create_full_database True True business_only empty_database =
     (\<lparr>run_db = empty_database, printed = [failed_message], raised = None\<rparr>, Some (- 1))"
proof -
  have p: "present ''business'' business_only \<and> present ''tip'' business_only \<and>
           present ''photo'' business_only"
    by code_simp
  have n: "\<not> present ''user'' business_only" "\<not> present ''review'' business_only"
    by code_simp+
  have h: "\<not> (present ''business'' business_only \<and> present ''user'' business_only
             \<and> present ''review'' business_only)"
    using n by simp
  show ?thesis
    using p n missing_mandatory_file_aborts[OF h, of True True empty_database] by simp
qed







end
